theory Spec2Isabelle
  imports Main "HOL-Library.Option_ord"
begin

section \<open>Interview scheduling: validation, conflict detection, service operations\<close>

text \<open>
  The development embeds the interview subsystem of the applicant tracking system:
  the validation functions of \<^verbatim>\<open>interview-validation.js\<close>, the document builder and
  display projection of \<^verbatim>\<open>interview-models.js\<close>, the queries of
  \<^verbatim>\<open>interview-db.js\<close> and the operations of \<^verbatim>\<open>interview-service.js\<close>.

  Conventions of the embedding.
  \<^item> A JavaScript string is a \<^typ>\<open>string\<close>; one \<^typ>\<open>char\<close> stands for one code unit
    below 256.
  \<^item> An object field that may be \<^verbatim>\<open>undefined\<close> is an \<^typ>\<open>'a option\<close>. Request
    fields carry the JSON type the form sends (a string, an integer, a list of strings),
    so the \<^verbatim>\<open>typeof\<close> branches of the validators cannot fire and are left out.
  \<^item> A \<^verbatim>\<open>Date\<close> is its time value in milliseconds since the epoch, an \<^typ>\<open>int\<close>;
    a \<^verbatim>\<open>Date\<close> that can be an Invalid Date is an \<^typ>\<open>int option\<close> with
    \<^term>\<open>None\<close> for the NaN time value.
  \<^item> A thrown exception is the left summand of a result.
  \<^item> The collection is the list of its documents in insertion order; store round trips
    do not fail.
\<close>

subsection \<open>Characters and decimal numerals\<close>

definition isDigit :: "char \<Rightarrow> bool" where
  "isDigit c = (48 \<le> (of_char c :: nat) \<and> (of_char c :: nat) \<le> 57)"

definition digitVal :: "char \<Rightarrow> nat" where
  "digitVal c = of_char c - 48"

definition digitChar :: "nat \<Rightarrow> char" where
  "digitChar n = char_of (48 + n)"

definition digitsVal :: "string \<Rightarrow> nat" where
  "digitsVal s = foldl (\<lambda>a c. 10 * a + digitVal c) 0 s"

text \<open>\<^verbatim>\<open>String(n)\<close> for a natural number and for an integer.\<close>

fun showNat :: "nat \<Rightarrow> string" where
  "showNat n = (if n < 10 then [digitChar n] else showNat (n div 10) @ [digitChar (n mod 10)])"

declare showNat.simps [simp del]

definition showInt :: "int \<Rightarrow> string" where
  "showInt i = (if i < 0 then CHR ''-'' # showNat (nat (- i)) else showNat (nat i))"

text \<open>Zero-padded fields of fixed width, as \<^verbatim>\<open>toISOString\<close> and
  \<^verbatim>\<open>toTimeString\<close> print them; the arguments are always within the width.\<close>

definition pad2 :: "int \<Rightarrow> string" where
  "pad2 n = [digitChar (nat (n div 10 mod 10)), digitChar (nat (n mod 10))]"

definition pad4 :: "int \<Rightarrow> string" where
  "pad4 n = digitChar (nat (n div 1000 mod 10)) # digitChar (nat (n div 100 mod 10)) # pad2 n"

definition pad6 :: "int \<Rightarrow> string" where
  "pad6 n = digitChar (nat (n div 100000 mod 10)) # digitChar (nat (n div 10000 mod 10)) # pad4 n"

text \<open>\<^verbatim>\<open>Number(s)\<close> on the strings that reach it here: the empty string is 0, a string
  of decimal digits is its value; every other string is taken as NaN.\<close>

definition jsNumber :: "string \<Rightarrow> int option" where
  "jsNumber s = (if list_all isDigit s then Some (int (digitsVal s)) else None)"

text \<open>\<^verbatim>\<open>s.split(c)\<close> for a one-character separator.\<close>

fun split_chr :: "char \<Rightarrow> string \<Rightarrow> string list" where
  "split_chr c [] = [[]]"
| "split_chr c (x # xs) =
     (if x = c then [] # split_chr c xs
      else (case split_chr c xs of [] \<Rightarrow> [[x]] | p # ps \<Rightarrow> (x # p) # ps))"

text \<open>White space of \<^verbatim>\<open>trim\<close> and of the class \<^verbatim>\<open>\s\<close>, among the code units
  below 256: tab, line feed, vertical tab, form feed, carriage return, space, no-break space.\<close>

definition isSpace :: "char \<Rightarrow> bool" where
  "isSpace c = ((of_char c :: nat) \<in> {9, 10, 11, 12, 13, 32, 160})"

definition trim :: "string \<Rightarrow> string" where
  "trim s = rev (dropWhile isSpace (rev (dropWhile isSpace s)))"

text \<open>\<^verbatim>\<open>toLowerCase\<close> on code units below 256.\<close>

definition lowerChar :: "char \<Rightarrow> char" where
  "lowerChar c = (let n = (of_char c :: nat) in
     if (65 \<le> n \<and> n \<le> 90) \<or> (192 \<le> n \<and> n \<le> 222 \<and> n \<noteq> 215) then char_of (n + 32) else c)"

definition toLowerCase :: "string \<Rightarrow> string" where
  "toLowerCase s = map lowerChar s"

text \<open>JavaScript truthiness of an optional string and of an optional integer.\<close>

definition truthy :: "string option \<Rightarrow> bool" where
  "truthy v = (case v of None \<Rightarrow> False | Some s \<Rightarrow> s \<noteq> [])"


subsection \<open>The calendar of \<^verbatim>\<open>Date\<close>\<close>

text \<open>Day numbers count from 1970-01-01; months and days of the month count from 1.\<close>

definition msPerDay :: int where "msPerDay = 86400000"
definition msPerHour :: int where "msPerHour = 3600000"
definition msPerMinute :: int where "msPerMinute = 60000"

definition DayFromYear :: "int \<Rightarrow> int" where
  "DayFromYear y = 365 * (y - 1970) + (y - 1969) div 4 - (y - 1901) div 100 + (y - 1601) div 400"

definition isLeap :: "int \<Rightarrow> bool" where
  "isLeap y = (y mod 4 = 0 \<and> (y mod 100 \<noteq> 0 \<or> y mod 400 = 0))"

definition DaysInMonth :: "int \<Rightarrow> int \<Rightarrow> int" where
  "DaysInMonth y m =
     (if m = 2 then (if isLeap y then 29 else 28)
      else if m = 4 \<or> m = 6 \<or> m = 9 \<or> m = 11 then 30 else 31)"

definition daysBeforeMonth :: "bool \<Rightarrow> int \<Rightarrow> int" where
  "daysBeforeMonth lp m =
     (if m \<le> 1 then 0 else if m = 2 then 31
      else (if lp then 1 else 0) +
        (if m = 3 then 59 else if m = 4 then 90 else if m = 5 then 120
         else if m = 6 then 151 else if m = 7 then 181 else if m = 8 then 212
         else if m = 9 then 243 else if m = 10 then 273 else if m = 11 then 304 else 334))"

definition MakeDay :: "int \<Rightarrow> int \<Rightarrow> int \<Rightarrow> int" where
  "MakeDay y m d = DayFromYear y + daysBeforeMonth (isLeap y) m + d - 1"

lemma div_step:
  assumes "0 < (k::int)"
  shows "(a + 1) div k = a div k + (if (a + 1) mod k = 0 then 1 else 0)"
proof -
  let ?q = "a div k" and ?r = "a mod k"
  have r: "0 \<le> ?r" "?r < k" using assms by simp_all
  have a: "a = k * ?q + ?r" by simp
  show ?thesis
  proof (cases "?r + 1 = k")
    case True
    have "a + 1 = k * ?q + (?r + 1)" using a by linarith
    also have "\<dots> = k * (?q + 1) + 0" using True by (simp add: algebra_simps)
    finally have "(a + 1) div k = ?q + 1" "(a + 1) mod k = 0"
      using assms int_div_pos_eq[of "a + 1" k "?q + 1" 0]
        int_mod_pos_eq[of "a + 1" k "?q + 1" 0] by auto
    then show ?thesis by simp
  next
    case False
    then have lt: "?r + 1 < k" using r by simp
    have "a + 1 = k * ?q + (?r + 1)" using a by linarith
    then have "(a + 1) div k = ?q" "(a + 1) mod k = ?r + 1"
      using lt r int_div_pos_eq[of "a + 1" k ?q "?r + 1"]
        int_mod_pos_eq[of "a + 1" k ?q "?r + 1"] by auto
    then show ?thesis using r by simp
  qed
qed

lemma DayFromYear_step:
  "DayFromYear (y + 1) = DayFromYear y + (if isLeap y then 366 else 365)"
proof -
  define a4 a100 a400
    where "a4 = (y mod 4 = 0)" and "a100 = (y mod 100 = 0)" and "a400 = (y mod 400 = 0)"
  define d4 d100 d400
    where "d4 = (y - 1969) div 4" and "d100 = (y - 1901) div 100"
      and "d400 = (y - 1601) div 400"
  have m4: "(y - 1968) mod 4 = y mod 4" using mod_mult_self1[of y "-492" 4] by simp
  have m100: "(y - 1900) mod 100 = y mod 100" using mod_mult_self1[of y "-19" 100] by simp
  have m400: "(y - 1600) mod 400 = y mod 400" using mod_mult_self1[of y "-4" 400] by simp
  have "(100::int) dvd 400" "(4::int) dvd 100" by simp_all
  then have c: "a400 \<Longrightarrow> a100" "a100 \<Longrightarrow> a4"
    unfolding a4_def a100_def a400_def
    using dvd_trans[of 100 400 y] dvd_trans[of 4 100 y] by (simp_all add: mod_eq_0_iff_dvd)
  have s4: "(y + 1 - 1969) div 4 = d4 + (if a4 then 1 else 0)"
    using div_step[of 4 "y - 1969"] m4 unfolding a4_def d4_def by simp
  have s100: "(y + 1 - 1901) div 100 = d100 + (if a100 then 1 else 0)"
    using div_step[of 100 "y - 1901"] m100 unfolding a100_def d100_def by simp
  have s400: "(y + 1 - 1601) div 400 = d400 + (if a400 then 1 else 0)"
    using div_step[of 400 "y - 1601"] m400 unfolding a400_def d400_def by simp
  have L: "isLeap y = (a4 \<and> (\<not> a100 \<or> a400))"
    unfolding isLeap_def a4_def a100_def a400_def by simp
  have "DayFromYear (y + 1) = 365 * (y + 1 - 1970) + (d4 + (if a4 then 1 else 0))
      - (d100 + (if a100 then 1 else 0)) + (d400 + (if a400 then 1 else 0))"
    unfolding DayFromYear_def s4 s100 s400 ..
  moreover have "DayFromYear y = 365 * (y - 1970) + d4 - d100 + d400"
    unfolding DayFromYear_def d4_def d100_def d400_def ..
  ultimately show ?thesis
    unfolding L using c by (cases a4; cases a100; cases a400; simp)
qed

lemma DayFromYear_less_Suc: "DayFromYear y < DayFromYear (y + 1)"
  by (simp add: DayFromYear_step)

text \<open>\<^verbatim>\<open>YearFromTime\<close>: the largest year whose first day is not after the given day,
  found by stepping down and then up from an estimate.\<close>

function yearDown :: "int \<Rightarrow> int \<Rightarrow> int" where
  "yearDown n y = (if n < DayFromYear y then yearDown n (y - 1) else y)"
  by pat_completeness auto
termination
proof (relation "measure (\<lambda>(n, y). nat (DayFromYear y - n))")
  show "wf (measure (\<lambda>(n, y). nat (DayFromYear y - n)))" by simp
next
  fix n y assume "n < DayFromYear y"
  moreover have "DayFromYear (y - 1) < DayFromYear y"
    using DayFromYear_less_Suc[of "y - 1"] by simp
  ultimately show "((n, y - 1), (n, y)) \<in> measure (\<lambda>(n, y). nat (DayFromYear y - n))"
    by simp
qed

function yearUp :: "int \<Rightarrow> int \<Rightarrow> int" where
  "yearUp n y = (if DayFromYear (y + 1) \<le> n then yearUp n (y + 1) else y)"
  by pat_completeness auto
termination
proof (relation "measure (\<lambda>(n, y). nat (n - DayFromYear y))")
  show "wf (measure (\<lambda>(n, y). nat (n - DayFromYear y)))" by simp
next
  fix n y assume "DayFromYear (y + 1) \<le> n"
  then show "((n, y + 1), (n, y)) \<in> measure (\<lambda>(n, y). nat (n - DayFromYear y))"
    using DayFromYear_less_Suc[of y] by simp
qed

declare yearDown.simps [simp del]
declare yearUp.simps [simp del]

definition YearFromDay :: "int \<Rightarrow> int" where
  "YearFromDay n = yearUp n (yearDown n (1970 + n div 365))"

text \<open>Month (1 to 12) of a day within the year (counted from 0).\<close>

definition MonthFromDayInYear :: "bool \<Rightarrow> int \<Rightarrow> int" where
  "MonthFromDayInYear lp d = (let l = (if lp then 1 else 0) in
     if d < 31 then 1 else if d < 59 + l then 2 else if d < 90 + l then 3
     else if d < 120 + l then 4 else if d < 151 + l then 5 else if d < 181 + l then 6
     else if d < 212 + l then 7 else if d < 243 + l then 8 else if d < 273 + l then 9
     else if d < 304 + l then 10 else if d < 334 + l then 11 else 12)"

text \<open>Year, month and day of the month of a day number.\<close>

definition civilFromDay :: "int \<Rightarrow> int \<times> int \<times> int" where
  "civilFromDay n = (let y = YearFromDay n; lp = isLeap y; diy = n - DayFromYear y;
       m = MonthFromDayInYear lp diy
     in (y, m, diy - daysBeforeMonth lp m + 1))"

subsection \<open>The environment of an operation\<close>

record candidate =
  firstName :: string
  lastName :: string
  email :: string
  currentStage :: string

record job =
  title :: string
  department :: string
  jobStatus :: string

text \<open>Outcome of a lookup in the candidate or the job service: the entity, \<^verbatim>\<open>null\<close>,
  or an exception.\<close>

datatype 'a lookup = Found 'a | NotFound | LookupFailed

text \<open>
  What an operation reads from outside the collection. \<open>tzMinutes\<close> is local time minus
  UTC, taken as one fixed offset; \<open>now\<close> is the clock reading of \<^verbatim>\<open>new Date()\<close>, the
  same for every reading within one operation; \<open>hostParse\<close> is whatever the host's
  \<^verbatim>\<open>Date\<close> constructor makes of a string that is not one of the two ISO forms
  modelled below.
\<close>

record world =
  tzMinutes :: int
  now :: int
  hostParse :: "string \<Rightarrow> int option"
  getCandidateById :: "string option \<Rightarrow> candidate lookup"
  getJobById :: "string option \<Rightarrow> job lookup"

definition LocalTime :: "world \<Rightarrow> int \<Rightarrow> int" where
  "LocalTime w t = t + tzMinutes w * msPerMinute"

definition UTC :: "world \<Rightarrow> int \<Rightarrow> int" where
  "UTC w l = l - tzMinutes w * msPerMinute"

text \<open>\<^verbatim>\<open>d.setHours(h, m, s, ms)\<close>: the local calendar day is kept.\<close>

definition setHours :: "world \<Rightarrow> int \<Rightarrow> int \<Rightarrow> int \<Rightarrow> int \<Rightarrow> int \<Rightarrow> int" where
  "setHours w t h m s ms =
     UTC w (LocalTime w t div msPerDay * msPerDay + h * msPerHour + m * msPerMinute + s * 1000 + ms)"

definition getFullYear :: "world \<Rightarrow> int \<Rightarrow> int" where
  "getFullYear w t = YearFromDay (LocalTime w t div msPerDay)"

text \<open>\<^verbatim>\<open>d.setFullYear(y)\<close>: local month, day and time of day are kept; a 29 February
  carried into a common year runs over into 1 March.\<close>

definition setFullYear :: "world \<Rightarrow> int \<Rightarrow> int \<Rightarrow> int" where
  "setFullYear w t y = (let l = LocalTime w t in
     case civilFromDay (l div msPerDay) of
       (y0, m, d) \<Rightarrow> UTC w (MakeDay y m d * msPerDay + l mod msPerDay))"

text \<open>\<^verbatim>\<open>d.toISOString().split('T')[0]\<close>: the UTC calendar date.\<close>

definition toISODate :: "int \<Rightarrow> string" where
  "toISODate t = (case civilFromDay (t div msPerDay) of
     (y, m, d) \<Rightarrow>
       (if 0 \<le> y \<and> y \<le> 9999 then pad4 y
        else (if y < 0 then CHR ''-'' else CHR ''+'') # pad6 (abs y))
       @ ''-'' @ pad2 m @ ''-'' @ pad2 d)"

text \<open>\<^verbatim>\<open>d.toTimeString().slice(0, 5)\<close>: the local time of day.\<close>

definition toTimeHHMM :: "world \<Rightarrow> int \<Rightarrow> string" where
  "toTimeHHMM w t = (let l = LocalTime w t mod msPerDay in
     pad2 (l div msPerHour) @ '':'' @ pad2 (l div msPerMinute mod 60))"

subsection \<open>Regular expressions and \<^verbatim>\<open>Date\<close> parsing\<close>

text \<open>\<^verbatim>\<open>/^\d{4}-\d{2}-\d{2}$/\<close>\<close>

definition DATE_REGEX :: "string \<Rightarrow> bool" where
  "DATE_REGEX s = (length s = 10 \<and> list_all isDigit (take 4 s) \<and> s ! 4 = CHR ''-''
     \<and> list_all isDigit (take 2 (drop 5 s)) \<and> s ! 7 = CHR ''-'' \<and> list_all isDigit (drop 8 s))"

text \<open>\<^verbatim>\<open>/^([0-1]?[0-9]|2[0-3]):[0-5][0-9]$/\<close>\<close>

definition isDigitUpTo :: "nat \<Rightarrow> char \<Rightarrow> bool" where
  "isDigitUpTo k c = (48 \<le> (of_char c :: nat) \<and> (of_char c :: nat) \<le> 48 + k)"

fun TIME_REGEX :: "string \<Rightarrow> bool" where
  "TIME_REGEX [h, c, m1, m2] =
     (isDigit h \<and> c = CHR '':'' \<and> isDigitUpTo 5 m1 \<and> isDigit m2)"
| "TIME_REGEX [h1, h2, c, m1, m2] =
     (((isDigitUpTo 1 h1 \<and> isDigit h2) \<or> (h1 = CHR ''2'' \<and> isDigitUpTo 3 h2))
      \<and> c = CHR '':'' \<and> isDigitUpTo 5 m1 \<and> isDigit m2)"
| "TIME_REGEX _ = False"

text \<open>Year, month and day written in a string of the form \<^verbatim>\<open>YYYY-MM-DD\<close>.\<close>

definition isoDateFields :: "string \<Rightarrow> int \<times> int \<times> int" where
  "isoDateFields s =
     (int (digitsVal (take 4 s)), int (digitsVal (take 2 (drop 5 s))), int (digitsVal (drop 8 s)))"

definition realDate :: "int \<times> int \<times> int \<Rightarrow> bool" where
  "realDate ymd = (case ymd of (y, m, d) \<Rightarrow> 1 \<le> m \<and> m \<le> 12 \<and> 1 \<le> d \<and> d \<le> DaysInMonth y m)"

text \<open>\<^verbatim>\<open>new Date(s)\<close>. A date-only ISO string naming a day of the calendar is midnight
  UTC of that day; every other string is left to the host.\<close>

definition newDate :: "world \<Rightarrow> string \<Rightarrow> int option" where
  "newDate w s =
     (if DATE_REGEX s \<and> realDate (isoDateFields s)
      then (case isoDateFields s of (y, m, d) \<Rightarrow> Some (MakeDay y m d * msPerDay))
      else hostParse w s)"

text \<open>\<^verbatim>\<open>new Date(`${d}T${t}:00`)\<close>. An ISO date-time without offset is local time;
  every string outside that form is left to the host.\<close>

definition isHHMM :: "string \<Rightarrow> bool" where
  "isHHMM t = (length t = 5 \<and> isDigit (t ! 0) \<and> isDigit (t ! 1) \<and> t ! 2 = CHR '':''
     \<and> isDigit (t ! 3) \<and> isDigit (t ! 4))"

definition newDateTime :: "world \<Rightarrow> string \<Rightarrow> string \<Rightarrow> int option" where
  "newDateTime w d t =
     (if DATE_REGEX d \<and> realDate (isoDateFields d) \<and> isHHMM t
         \<and> digitsVal (take 2 t) \<le> 23 \<and> digitsVal (drop 3 t) \<le> 59
      then (case isoDateFields d of (y, m, dd) \<Rightarrow>
              Some (UTC w (MakeDay y m dd * msPerDay + int (digitsVal (take 2 t)) * msPerHour
                           + int (digitsVal (drop 3 t)) * msPerMinute)))
      else hostParse w (d @ ''T'' @ t @ '':00''))"

text \<open>\<^verbatim>\<open>const [hours, minutes] = time.split(':').map(Number)\<close>; a missing part is
  \<^verbatim>\<open>undefined\<close>, which behaves as NaN in what follows.\<close>

definition timeFields :: "string \<Rightarrow> int option \<times> int option" where
  "timeFields t = (case map jsNumber (split_chr (CHR '':'') t) of
       [] \<Rightarrow> (None, None)
     | [h] \<Rightarrow> (h, None)
     | h # m # _ \<Rightarrow> (h, m))"

subsection \<open>Exceptions\<close>

type_synonym violation = "string \<times> string"

text \<open>The second constructor argument of \<^verbatim>\<open>ValidationError\<close>, stored in its
  \<^verbatim>\<open>field\<close> property: the validators pass the list of (field, message) pairs, a field
  name, or nothing.\<close>

datatype errField = FieldList "violation list" | FieldName string | NoField

text \<open>\<^verbatim>\<open>InterviewServiceError\<close> carries message, code and status code.\<close>

datatype exn =
    ValidationError string errField
  | InterviewServiceError string string nat
  | Error string
  | RangeError string

subsection \<open>Object identifiers\<close>

text \<open>\<^verbatim>\<open>ObjectId.isValid\<close> of the database driver, on strings: 24 hexadecimal digits.
  An \<^verbatim>\<open>ObjectId\<close> is kept as the lower-case hexadecimal string that
  \<^verbatim>\<open>toString\<close> prints; the constructor throws on any other string.\<close>

type_synonym ObjectId = string

definition isHex :: "char \<Rightarrow> bool" where
  "isHex c = (let n = (of_char c :: nat) in
     (48 \<le> n \<and> n \<le> 57) \<or> (65 \<le> n \<and> n \<le> 70) \<or> (97 \<le> n \<and> n \<le> 102))"

definition ObjectId_isValid :: "string \<Rightarrow> bool" where
  "ObjectId_isValid s = (length s = 24 \<and> list_all isHex s)"

definition newObjectId :: "string \<Rightarrow> exn + ObjectId" where
  "newObjectId s =
     (if ObjectId_isValid s then Inr (toLowerCase s)
      else Inl (Error ''input must be a 24 character hex string''))"

subsection \<open>Request data\<close>

text \<open>The body of a create request and the patch of an update request.\<close>

record interviewData =
  in_candidateId :: "string option"
  in_candidateName :: "string option"
  in_jobId :: "string option"
  in_jobTitle :: "string option"
  in_type :: "string option"
  in_date :: "string option"
  in_time :: "string option"
  in_duration :: "int option"
  in_interviewers :: "string list option"
  in_meetingType :: "string option"
  in_meetingLink :: "string option"
  in_location :: "string option"
  in_notes :: "string option"
  in_status :: "string option"
  in_createdBy :: "string option"

definition INTERVIEW_TYPES :: "string list" where
  "INTERVIEW_TYPES = [''screening'', ''technical'', ''cultural'', ''final'']"

definition INTERVIEW_STATUS :: "string list" where
  "INTERVIEW_STATUS = [''scheduled'', ''completed'', ''cancelled'', ''rescheduled'']"

definition MEETING_TYPES :: "string list" where
  "MEETING_TYPES = [''video'', ''phone'', ''in-person'']"

definition DEFAULT_DURATIONS :: "string \<Rightarrow> int option" where
  "DEFAULT_DURATIONS t =
     (if t = ''screening'' then Some 30 else if t = ''technical'' then Some 60
      else if t = ''cultural'' then Some 45 else if t = ''final'' then Some 90 else None)"

text \<open>\<^verbatim>\<open>xs.join(', ')\<close>\<close>

fun joinComma :: "string list \<Rightarrow> string" where
  "joinComma [] = []"
| "joinComma [x] = x"
| "joinComma (x # y # ys) = x @ '', '' @ joinComma (y # ys)"

subsection \<open>Validation\<close>

definition validateInterviewBasicInfo_errors :: "interviewData \<Rightarrow> violation list" where
  "validateInterviewBasicInfo_errors d =
     (case in_candidateId d of
        None \<Rightarrow> [(''candidateId'', ''Candidate ID is required'')]
      | Some s \<Rightarrow>
          if s = [] then [(''candidateId'', ''Candidate ID is required'')]
          else if \<not> ObjectId_isValid s
            then [(''candidateId'', ''Candidate ID must be a valid ObjectId'')]
          else [])
   @ (case in_candidateName d of
        None \<Rightarrow> [(''candidateName'', ''Candidate name is required and must be a string'')]
      | Some s \<Rightarrow>
          if s = [] then [(''candidateName'', ''Candidate name is required and must be a string'')]
          else if length (trim s) < 1
            then [(''candidateName'', ''Candidate name cannot be empty'')]
          else if length (trim s) > 100
            then [(''candidateName'', ''Candidate name cannot exceed 100 characters'')]
          else [])
   @ (case in_jobId d of
        None \<Rightarrow> [(''jobId'', ''Job ID is required'')]
      | Some s \<Rightarrow>
          if s = [] then [(''jobId'', ''Job ID is required'')]
          else if \<not> ObjectId_isValid s then [(''jobId'', ''Job ID must be a valid ObjectId'')]
          else [])
   @ (case in_jobTitle d of
        None \<Rightarrow> [(''jobTitle'', ''Job title is required and must be a string'')]
      | Some s \<Rightarrow>
          if s = [] then [(''jobTitle'', ''Job title is required and must be a string'')]
          else if length (trim s) < 1 then [(''jobTitle'', ''Job title cannot be empty'')]
          else if length (trim s) > 100
            then [(''jobTitle'', ''Job title cannot exceed 100 characters'')]
          else [])
   @ (case in_type d of
        None \<Rightarrow> [(''type'', ''Interview type is required'')]
      | Some s \<Rightarrow>
          if s = [] then [(''type'', ''Interview type is required'')]
          else if s \<notin> set INTERVIEW_TYPES
            then [(''type'', ''Interview type must be one of: '' @ joinComma INTERVIEW_TYPES)]
          else [])"

text \<open>Each validator collects its violations in one array and throws a single
  \<^verbatim>\<open>ValidationError\<close> holding the array when it is not empty.\<close>

definition throwIfAny :: "string \<Rightarrow> violation list \<Rightarrow> exn + unit" where
  "throwIfAny msg errors = (if errors \<noteq> [] then Inl (ValidationError msg (FieldList errors)) else Inr ())"

definition validateInterviewBasicInfo :: "interviewData \<Rightarrow> exn + unit" where
  "validateInterviewBasicInfo d =
     throwIfAny ''Interview basic information validation failed'' (validateInterviewBasicInfo_errors d)"

text \<open>The three blocks of \<^verbatim>\<open>validateDateTimeConstraints\<close>, which share one array.\<close>

definition dateErrors :: "world \<Rightarrow> string option \<Rightarrow> violation list" where
  "dateErrors w date =
     (case date of
        None \<Rightarrow> [(''date'', ''Date is required and must be a string'')]
      | Some s \<Rightarrow>
          if s = [] then [(''date'', ''Date is required and must be a string'')]
          else if \<not> DATE_REGEX s then [(''date'', ''Date must be in YYYY-MM-DD format'')]
          else (case newDate w s of
                  None \<Rightarrow> [(''date'', ''Date must be a valid date'')]
                | Some t \<Rightarrow>
                    (let today = setHours w (now w) 0 0 0 0;
                         dateObj = setHours w t 0 0 0 0;
                         oneYearFromNow =
                           setHours w (setFullYear w (now w) (getFullYear w (now w) + 1)) 0 0 0 0
                     in (if dateObj < today
                         then [(''date'', ''Interview date cannot be in the past'')] else [])
                      @ (if dateObj > oneYearFromNow
                         then [(''date'', ''Interview date cannot be more than one year in the future'')]
                         else []))))"

definition timeErrors :: "string option \<Rightarrow> violation list" where
  "timeErrors time =
     (case time of
        None \<Rightarrow> [(''time'', ''Time is required and must be a string'')]
      | Some s \<Rightarrow>
          if s = [] then [(''time'', ''Time is required and must be a string'')]
          else if \<not> TIME_REGEX s then [(''time'', ''Time must be in HH:MM format (24-hour)'')]
          else (case timeFields s of
                  (Some hours, Some minutes) \<Rightarrow>
                    if hours < 8 \<or> hours > 18 \<or> (hours = 18 \<and> minutes > 0)
                    then [(''time'', ''Interview time must be between 08:00 and 18:00'')]
                    else []
                | _ \<Rightarrow> []))"

definition datetimeErrors :: "world \<Rightarrow> string option \<Rightarrow> string option \<Rightarrow> violation list" where
  "datetimeErrors w date time =
     (case (date, time) of
        (Some d, Some t) \<Rightarrow>
          if d \<noteq> [] \<and> t \<noteq> [] \<and> DATE_REGEX d \<and> TIME_REGEX t
          then (case (newDate w d, timeFields t) of
                  (Some t0, Some hours, Some minutes) \<Rightarrow>
                    if setHours w t0 hours minutes 0 0 \<le> now w
                    then [(''datetime'', ''Interview date and time must be in the future'')]
                    else []
                | _ \<Rightarrow> [])
          else []
      | _ \<Rightarrow> [])"

definition validateDateTimeConstraints :: "world \<Rightarrow> string option \<Rightarrow> string option \<Rightarrow> exn + unit" where
  "validateDateTimeConstraints w date time =
     throwIfAny ''Date and time validation failed''
       (dateErrors w date @ timeErrors time @ datetimeErrors w date time)"

definition validateInterviewDuration_errors :: "int option \<Rightarrow> violation list" where
  "validateInterviewDuration_errors duration =
     (case duration of
        None \<Rightarrow> []
      | Some n \<Rightarrow>
          if n < 15 then [(''duration'', ''Interview duration must be at least 15 minutes'')]
          else if n > 480
            then [(''duration'', ''Interview duration cannot exceed 480 minutes (8 hours)'')]
          else if n mod 15 \<noteq> 0
            then [(''duration'', ''Interview duration must be in 15-minute increments'')]
          else [])"

definition validateInterviewDuration :: "int option \<Rightarrow> string option \<Rightarrow> exn + unit" where
  "validateInterviewDuration duration interviewType =
     throwIfAny ''Duration validation failed'' (validateInterviewDuration_errors duration)"

definition interviewerErrors :: "nat \<Rightarrow> string \<Rightarrow> violation list" where
  "interviewerErrors index interviewer =
     (if length (trim interviewer) < 1
      then [(''interviewers['' @ showNat index @ '']'', ''Interviewer name cannot be empty'')]
      else if length (trim interviewer) > 100
      then [(''interviewers['' @ showNat index @ '']'', ''Interviewer name cannot exceed 100 characters'')]
      else [])"

definition validateInterviewers_errors :: "string list option \<Rightarrow> violation list" where
  "validateInterviewers_errors interviewers =
     (case interviewers of
        None \<Rightarrow> []
      | Some xs \<Rightarrow>
          (if length xs > 10
           then [(''interviewers'', ''Cannot have more than 10 interviewers'')] else [])
        @ concat (map (\<lambda>(index, x). interviewerErrors index x) (zip [0..<length xs] xs))
        @ (if length (remdups (map (\<lambda>name. toLowerCase (trim name)) xs)) \<noteq> length xs
           then [(''interviewers'', ''Interviewer names must be unique'')] else []))"

definition validateInterviewers :: "string list option \<Rightarrow> exn + unit" where
  "validateInterviewers interviewers =
     throwIfAny ''Interviewers validation failed'' (validateInterviewers_errors interviewers)"

text \<open>\<^verbatim>\<open>URL_REGEX\<close>: scheme, an optional \<^verbatim>\<open>www.\<close>, 1 to 256 host characters, a dot,
  1 to 6 characters of the last label, a word boundary, and path characters to the end.\<close>

definition isAlnum :: "char \<Rightarrow> bool" where
  "isAlnum c = (let n = (of_char c :: nat) in
     (48 \<le> n \<and> n \<le> 57) \<or> (65 \<le> n \<and> n \<le> 90) \<or> (97 \<le> n \<and> n \<le> 122))"

definition urlHostChar :: "char \<Rightarrow> bool" where
  "urlHostChar c = (isAlnum c \<or> c \<in> set ''-@:%._+~#='')"

definition urlLabelChar :: "char \<Rightarrow> bool" where
  "urlLabelChar c = (isAlnum c \<or> c \<in> set ''()'')"

definition urlPathChar :: "char \<Rightarrow> bool" where
  "urlPathChar c = (isAlnum c \<or> c \<in> set ''-()@:%_+.~#?&/='')"

definition isWordChar :: "char \<Rightarrow> bool" where
  "isWordChar c = (isAlnum c \<or> c = CHR ''_'')"

definition wordBoundary :: "char \<Rightarrow> string \<Rightarrow> bool" where
  "wordBoundary prev rest =
     (isWordChar prev \<noteq> (case rest of [] \<Rightarrow> False | c # _ \<Rightarrow> isWordChar c))"

definition urlTailMatch :: "string \<Rightarrow> bool" where
  "urlTailMatch r =
     list_ex (\<lambda>i. i < length r \<and> list_all urlHostChar (take i r) \<and> r ! i = CHR ''.'' \<and>
        list_ex (\<lambda>j. i + j < length r \<and> list_all urlLabelChar (take j (drop (Suc i) r))
                   \<and> wordBoundary (r ! (i + j)) (drop (Suc (i + j)) r)
                   \<and> list_all urlPathChar (drop (Suc (i + j)) r)) [1..<7]) [1..<257]"

definition stripPrefix :: "string \<Rightarrow> string \<Rightarrow> string option" where
  "stripPrefix p s = (if take (length p) s = p then Some (drop (length p) s) else None)"

definition URL_REGEX :: "string \<Rightarrow> bool" where
  "URL_REGEX s =
     list_ex (\<lambda>scheme.
        case stripPrefix scheme s of
          None \<Rightarrow> False
        | Some r \<Rightarrow> urlTailMatch r \<or>
            (case stripPrefix ''www.'' r of None \<Rightarrow> False | Some r' \<Rightarrow> urlTailMatch r'))
       [''http://'', ''https://'']"

definition validateMeetingDetails_errors ::
  "string option \<Rightarrow> string option \<Rightarrow> string option \<Rightarrow> violation list" where
  "validateMeetingDetails_errors mtype link location =
     (case mtype of
        Some t \<Rightarrow>
          if t \<noteq> [] \<and> t \<notin> set MEETING_TYPES
          then [(''meetingType'', ''Meeting type must be one of: '' @ joinComma MEETING_TYPES)]
          else []
      | None \<Rightarrow> [])
   @ (case link of
        Some l \<Rightarrow>
          if l = [] then []
          else if length (trim l) > 500
            then [(''meetingLink'', ''Meeting link cannot exceed 500 characters'')]
          else if \<not> URL_REGEX (trim l)
            then [(''meetingLink'', ''Meeting link must be a valid URL'')]
          else []
      | None \<Rightarrow> [])
   @ (case location of
        Some l \<Rightarrow>
          if l \<noteq> [] \<and> length (trim l) > 200
          then [(''location'', ''Location cannot exceed 200 characters'')] else []
      | None \<Rightarrow> [])
   @ (if mtype = Some ''in-person'' \<and> \<not> truthy location
      then [(''location'', ''In-person interviews require a location'')] else [])"

definition validateMeetingDetails ::
  "string option \<Rightarrow> string option \<Rightarrow> string option \<Rightarrow> exn + unit" where
  "validateMeetingDetails mtype link location =
     throwIfAny ''Meeting details validation failed'' (validateMeetingDetails_errors mtype link location)"

definition validateInterviewNotes_errors :: "string option \<Rightarrow> violation list" where
  "validateInterviewNotes_errors notes =
     (case notes of
        None \<Rightarrow> []
      | Some s \<Rightarrow> if length s > 2000 then [(''notes'', ''Notes cannot exceed 2000 characters'')] else [])"

definition validateInterviewNotes :: "string option \<Rightarrow> exn + unit" where
  "validateInterviewNotes notes =
     throwIfAny ''Notes validation failed'' (validateInterviewNotes_errors notes)"

definition validateInterviewStatus :: "string option \<Rightarrow> exn + unit" where
  "validateInterviewStatus status =
     (case status of
        Some s \<Rightarrow>
          if s \<noteq> [] \<and> s \<notin> set INTERVIEW_STATUS
          then Inl (ValidationError (''Interview status must be one of: '' @ joinComma INTERVIEW_STATUS)
                      (FieldName ''status''))
          else Inr ()
      | None \<Rightarrow> Inr ())"

text \<open>The validators run one after the other; the first that throws ends the validation.
  The request is an object, so the guard at the head of \<^verbatim>\<open>validateInterviewData\<close> does
  not fire.\<close>

definition andThen :: "exn + unit \<Rightarrow> exn + unit \<Rightarrow> exn + unit" where
  "andThen r k = (case r of Inl e \<Rightarrow> Inl e | Inr u \<Rightarrow> k)"

definition validateInterviewData :: "world \<Rightarrow> interviewData \<Rightarrow> exn + unit" where
  "validateInterviewData w d =
     andThen (validateInterviewBasicInfo d)
    (andThen (validateDateTimeConstraints w (in_date d) (in_time d))
    (andThen (validateInterviewDuration (in_duration d) (in_type d))
    (andThen (validateInterviewers (in_interviewers d))
    (andThen (validateMeetingDetails (in_meetingType d) (in_meetingLink d) (in_location d))
    (andThen (validateInterviewNotes (in_notes d))
             (validateInterviewStatus (in_status d)))))))"

subsection \<open>Sanitizing\<close>

text \<open>\<^verbatim>\<open>s.replace(/\s+/g, ' ')\<close>\<close>

function collapseSpaces :: "string \<Rightarrow> string" where
  "collapseSpaces [] = []"
| "collapseSpaces (c # cs) =
     (if isSpace c then CHR '' '' # collapseSpaces (dropWhile isSpace cs)
      else c # collapseSpaces cs)"
  by pat_completeness auto
termination
  by (relation "measure length") (auto simp: le_imp_less_Suc length_dropWhile_le)

definition sanitizeString :: "string \<Rightarrow> string" where
  "sanitizeString input = (if input = [] then [] else collapseSpaces (trim input))"

definition sanitizeIfTruthy :: "(string \<Rightarrow> string) \<Rightarrow> string option \<Rightarrow> string option" where
  "sanitizeIfTruthy f v = (if truthy v then map_option f v else v)"

definition sanitizeInterviewInput :: "interviewData \<Rightarrow> interviewData" where
  "sanitizeInterviewInput d = d
     \<lparr> in_candidateName := sanitizeIfTruthy sanitizeString (in_candidateName d),
       in_jobTitle := sanitizeIfTruthy sanitizeString (in_jobTitle d),
       in_date := sanitizeIfTruthy trim (in_date d),
       in_time := sanitizeIfTruthy trim (in_time d),
       in_meetingLink := sanitizeIfTruthy trim (in_meetingLink d),
       in_location := sanitizeIfTruthy sanitizeString (in_location d),
       in_notes := sanitizeIfTruthy sanitizeString (in_notes d),
       in_interviewers :=
         map_option (\<lambda>xs. filter (\<lambda>name. name \<noteq> []) (map sanitizeString xs)) (in_interviewers d),
       in_duration :=
         map_option (\<lambda>n. if n \<noteq> 0 then n
                          else (case Option.bind (in_type d) DEFAULT_DURATIONS of
                                  Some v \<Rightarrow> v | None \<Rightarrow> 60))
           (in_duration d) \<rparr>"

subsection \<open>Interview documents\<close>

record meetingDetails =
  md_type :: string
  md_link :: "string option"
  md_location :: "string option"

record metadata =
  createdAt :: int
  updatedAt :: int
  createdBy :: "ObjectId option"
  isActive :: bool
  deletedAt :: "int option"
  deletedBy :: "ObjectId option"

text \<open>A document of the collection without its \<^verbatim>\<open>_id\<close>; a stored document is the
  pair of the identifier and this record. The fields \<open>itype\<close> and \<open>inotes\<close> are the
  properties \<^verbatim>\<open>type\<close> and \<^verbatim>\<open>notes\<close>.\<close>

record interview =
  candidateId :: "ObjectId option"
  candidateName :: "string option"
  jobId :: "ObjectId option"
  jobTitle :: "string option"
  scheduledDate :: "int option"
  duration :: int
  itype :: string
  interviewers :: "string list"
  meetingDetails :: meetingDetails
  inotes :: string
  status :: string
  metadata :: metadata

type_synonym stored = "ObjectId \<times> interview"

type_synonym store = "stored list"

text \<open>\<^verbatim>\<open>combineDateTime\<close>\<close>

definition combineDateTime :: "world \<Rightarrow> string option \<Rightarrow> string option \<Rightarrow> exn + int" where
  "combineDateTime w dateString timeString =
     (case (dateString, timeString) of
        (Some d, Some t) \<Rightarrow>
          if d = [] \<or> t = [] then Inl (Error ''Both date and time are required'')
          else (case newDate w d of
                  None \<Rightarrow> Inl (Error ''Invalid date format'')
                | Some date \<Rightarrow>
                    (case timeFields t of
                       (Some hours, Some minutes) \<Rightarrow>
                         if hours < 0 \<or> hours > 23 \<or> minutes < 0 \<or> minutes > 59
                         then Inl (Error ''Invalid time format'')
                         else Inr (setHours w date hours minutes 0 0)
                     | _ \<Rightarrow> Inl (Error ''Invalid time format'')))
      | _ \<Rightarrow> Inl (Error ''Both date and time are required''))"

text \<open>\<^verbatim>\<open>id && ObjectId.isValid(id) ? new ObjectId(id) : null\<close>\<close>

definition objectIdOrNull :: "string option \<Rightarrow> ObjectId option" where
  "objectIdOrNull v =
     (case v of
        Some s \<Rightarrow> if s \<noteq> [] \<and> ObjectId_isValid s then Some (toLowerCase s) else None
      | None \<Rightarrow> None)"

text \<open>\<^verbatim>\<open>v?.trim() || null\<close>\<close>

definition trimOrNull :: "string option \<Rightarrow> string option" where
  "trimOrNull v = (case v of Some s \<Rightarrow> if trim s \<noteq> [] then Some (trim s) else None | None \<Rightarrow> None)"

definition createInterviewDocument :: "world \<Rightarrow> interviewData \<Rightarrow> exn + interview" where
  "createInterviewDocument w d =
     (case combineDateTime w (in_date d) (in_time d) of
        Inl e \<Rightarrow> Inl e
      | Inr t \<Rightarrow> Inr
          \<lparr> candidateId = objectIdOrNull (in_candidateId d),
            candidateName = map_option trim (in_candidateName d),
            jobId = objectIdOrNull (in_jobId d),
            jobTitle = map_option trim (in_jobTitle d),
            scheduledDate = Some t,
            duration =
              (case in_duration d of
                 Some n \<Rightarrow> if n \<noteq> 0 then n
                   else (case Option.bind (in_type d) DEFAULT_DURATIONS of Some v \<Rightarrow> v | None \<Rightarrow> 60)
               | None \<Rightarrow> (case Option.bind (in_type d) DEFAULT_DURATIONS of Some v \<Rightarrow> v | None \<Rightarrow> 60)),
            itype = (if truthy (in_type d) then the (in_type d) else ''screening''),
            interviewers =
              (case in_interviewers d of
                 Some xs \<Rightarrow> filter (\<lambda>name. name \<noteq> []) (map trim xs)
               | None \<Rightarrow> []),
            meetingDetails =
              \<lparr> md_type = (if truthy (in_meetingType d) then the (in_meetingType d) else ''video''),
                md_link = trimOrNull (in_meetingLink d),
                md_location = trimOrNull (in_location d) \<rparr>,
            inotes = (case in_notes d of Some s \<Rightarrow> trim s | None \<Rightarrow> []),
            status = (if truthy (in_status d) then the (in_status d) else ''scheduled''),
            metadata =
              \<lparr> createdAt = now w, updatedAt = now w,
                createdBy = objectIdOrNull (in_createdBy d),
                isActive = True, deletedAt = None, deletedBy = None \<rparr> \<rparr>)"

subsection \<open>Enrichment and the display projection\<close>

record candidateInfo =
  ci_name :: string
  ci_email :: string
  ci_currentStage :: string

record jobInfo =
  ji_title :: string
  ji_department :: string
  ji_status :: string

text \<open>The properties that enrichment adds to a copy of the document. For the two info
  properties \<^term>\<open>None\<close> is an absent property and \<^term>\<open>Some None\<close> is
  \<^verbatim>\<open>null\<close>.\<close>

record enrichment =
  currentCandidateInfo :: "candidateInfo option option"
  candidateDeleted :: "bool option"
  currentJobInfo :: "jobInfo option option"
  jobDeleted :: "bool option"

definition noEnrichment :: enrichment where
  "noEnrichment = \<lparr> currentCandidateInfo = None, candidateDeleted = None,
                     currentJobInfo = None, jobDeleted = None \<rparr>"

type_synonym enriched = "stored \<times> enrichment"

definition enrichInterviewData :: "world \<Rightarrow> stored \<Rightarrow> enriched" where
  "enrichInterviewData w x =
     (let e1 =
        (case candidateId (snd x) of
           None \<Rightarrow> noEnrichment
         | Some cid \<Rightarrow>
             (case getCandidateById w (Some cid) of
                Found c \<Rightarrow> noEnrichment
                  \<lparr> currentCandidateInfo :=
                      Some (Some \<lparr> ci_name = firstName c @ '' '' @ lastName c,
                                   ci_email = email c,
                                   ci_currentStage = currentStage c \<rparr>) \<rparr>
              | NotFound \<Rightarrow> noEnrichment
                  \<lparr> currentCandidateInfo := Some None, candidateDeleted := Some True \<rparr>
              | LookupFailed \<Rightarrow> noEnrichment \<lparr> currentCandidateInfo := Some None \<rparr>));
          e2 =
        (case jobId (snd x) of
           None \<Rightarrow> e1
         | Some jid \<Rightarrow>
             (case getJobById w (Some jid) of
                Found j \<Rightarrow> e1
                  \<lparr> currentJobInfo :=
                      Some (Some \<lparr> ji_title = title j, ji_department = department j,
                                   ji_status = jobStatus j \<rparr>) \<rparr>
              | NotFound \<Rightarrow> e1 \<lparr> currentJobInfo := Some None, jobDeleted := Some True \<rparr>
              | LookupFailed \<Rightarrow> e1 \<lparr> currentJobInfo := Some None \<rparr>))
      in (x, e2))"

text \<open>The object that \<^verbatim>\<open>formatInterviewForDisplay\<close> returns has exactly these
  properties.\<close>

record display =
  d_id :: string
  d_candidateId :: "string option"
  d_candidateName :: "string option"
  d_jobId :: "string option"
  d_jobTitle :: "string option"
  d_date :: string
  d_time :: string
  d_duration :: string
  d_type :: string
  d_interviewers :: "string list"
  d_meetingDetails :: meetingDetails
  d_notes :: string
  d_status :: string
  d_createdAt :: int
  d_updatedAt :: int

text \<open>\<^verbatim>\<open>formatInterviewForDisplay\<close>. The argument is a document, enriched or not;
  \<^verbatim>\<open>null\<close> goes to \<^verbatim>\<open>null\<close>. \<^verbatim>\<open>toISOString\<close> throws a
  \<^verbatim>\<open>RangeError\<close> on an Invalid Date.\<close>

definition formatInterviewForDisplay :: "world \<Rightarrow> enriched option \<Rightarrow> exn + display option" where
  "formatInterviewForDisplay w v =
     (case v of
        None \<Rightarrow> Inr None
      | Some ((i, x), e) \<Rightarrow>
          (case scheduledDate x of
             None \<Rightarrow> Inl (RangeError ''Invalid time value'')
           | Some t \<Rightarrow> Inr (Some
               \<lparr> d_id = i,
                 d_candidateId = candidateId x,
                 d_candidateName = candidateName x,
                 d_jobId = jobId x,
                 d_jobTitle = jobTitle x,
                 d_date = toISODate t,
                 d_time = toTimeHHMM w t,
                 d_duration = showInt (duration x) @ '' minutes'',
                 d_type = itype x,
                 d_interviewers = interviewers x,
                 d_meetingDetails = meetingDetails x,
                 d_notes = inotes x,
                 d_status = status x,
                 d_createdAt = createdAt (metadata x),
                 d_updatedAt = updatedAt (metadata x) \<rparr>)))"

subsection \<open>The collection\<close>

text \<open>\<^verbatim>\<open>findOne\<close> gives the first document that matches. \<^verbatim>\<open>insertOne\<close> stores the
  document under the identifier the driver generated, and fails on an identifier that is
  already present. \<^verbatim>\<open>findOneAndUpdate\<close> changes the first document that matches
  and returns it, as it was before and as it is after the change, or \<^verbatim>\<open>null\<close> when
  none matches, which is what the callers' tests of the result presuppose.\<close>

definition findOne :: "(stored \<Rightarrow> bool) \<Rightarrow> store \<Rightarrow> stored option" where
  "findOne P s = find P s"

definition insertOne :: "ObjectId \<Rightarrow> interview \<Rightarrow> store \<Rightarrow> exn + store" where
  "insertOne newId doc s =
     (if newId \<in> fst ` set s then Inl (Error ''E11000 duplicate key error'')
      else Inr (s @ [(newId, doc)]))"

fun updateFirst :: "(stored \<Rightarrow> bool) \<Rightarrow> (interview \<Rightarrow> interview) \<Rightarrow> store \<Rightarrow> store" where
  "updateFirst P f [] = []"
| "updateFirst P f (x # xs) =
     (if P x then (fst x, f (snd x)) # xs else x # updateFirst P f xs)"

definition findOneAndUpdate ::
  "(stored \<Rightarrow> bool) \<Rightarrow> (interview \<Rightarrow> interview) \<Rightarrow> store \<Rightarrow> (stored \<times> stored) option \<times> store" where
  "findOneAndUpdate P f s =
     (case find P s of
        None \<Rightarrow> (None, s)
      | Some x \<Rightarrow> (Some (x, (fst x, f (snd x))), updateFirst P f s))"

text \<open>A comparison of a stored date with a bound. An Invalid Date on either side
  matches nothing.\<close>

definition dateGte :: "int option \<Rightarrow> int option \<Rightarrow> bool" where
  "dateGte v bound = (case (v, bound) of (Some a, Some b) \<Rightarrow> b \<le> a | _ \<Rightarrow> False)"

definition dateLte :: "int option \<Rightarrow> int option \<Rightarrow> bool" where
  "dateLte v bound = (case (v, bound) of (Some a, Some b) \<Rightarrow> a \<le> b | _ \<Rightarrow> False)"

text \<open>\<^verbatim>\<open>hasScheduleConflict\<close>: the query, then \<^verbatim>\<open>countDocuments(query) > 0\<close>.\<close>

definition conflictQuery :: "ObjectId \<Rightarrow> int option \<Rightarrow> ObjectId option \<Rightarrow> stored \<Rightarrow> bool" where
  "conflictQuery cid scheduled excludeId x =
     (let startTime = map_option (\<lambda>t. t - 30 * 60 * 1000) scheduled;
          endTime = map_option (\<lambda>t. t + 30 * 60 * 1000) scheduled
      in candidateId (snd x) = Some cid
       \<and> dateGte (scheduledDate (snd x)) startTime
       \<and> dateLte (scheduledDate (snd x)) endTime
       \<and> status (snd x) \<in> set [''scheduled'', ''rescheduled'']
       \<and> isActive (metadata (snd x))
       \<and> (case excludeId of Some e \<Rightarrow> fst x \<noteq> e | None \<Rightarrow> True))"

definition hasScheduleConflict :: "store \<Rightarrow> ObjectId \<Rightarrow> int option \<Rightarrow> ObjectId option \<Rightarrow> bool" where
  "hasScheduleConflict s cid scheduled excludeId =
     (length (filter (conflictQuery cid scheduled excludeId) s) > 0)"

text \<open>\<^verbatim>\<open>getInterviewsForDate\<close> of the database module: the active documents of the
  local calendar day, by ascending date; documents with equal dates keep their order of
  insertion.\<close>

definition getInterviewsForDate :: "world \<Rightarrow> store \<Rightarrow> int \<Rightarrow> stored list" where
  "getInterviewsForDate w s date =
     (let startOfDay = setHours w date 0 0 0 0;
          endOfDay = setHours w date 23 59 59 999
      in sort_key (\<lambda>x. scheduledDate (snd x))
           (filter (\<lambda>x. dateGte (scheduledDate (snd x)) (Some startOfDay)
                       \<and> dateLte (scheduledDate (snd x)) (Some endOfDay)
                       \<and> isActive (metadata (snd x))) s))"

subsection \<open>The service\<close>

text \<open>\<^verbatim>\<open>_validateReferences\<close>: the array of violations it collects, and the function.\<close>

definition validateReferences_errors :: "world \<Rightarrow> string option \<Rightarrow> string option \<Rightarrow> violation list" where
  "validateReferences_errors w cid jid =
     (case getCandidateById w cid of
        Found c \<Rightarrow> []
      | NotFound \<Rightarrow> [(''candidateId'', ''Referenced candidate does not exist'')]
      | LookupFailed \<Rightarrow> [(''candidateId'', ''Failed to validate candidate reference'')])
   @ (case getJobById w jid of
        Found j \<Rightarrow> []
      | NotFound \<Rightarrow> [(''jobId'', ''Referenced job does not exist'')]
      | LookupFailed \<Rightarrow> [(''jobId'', ''Failed to validate job reference'')])"

definition validateReferences ::
  "world \<Rightarrow> string option \<Rightarrow> string option \<Rightarrow> exn + (candidate option \<times> job option)" where
  "validateReferences w cid jid =
     (let errors = validateReferences_errors w cid jid;
          candidate = (case getCandidateById w cid of Found c \<Rightarrow> Some c | _ \<Rightarrow> None);
          job = (case getJobById w jid of Found j \<Rightarrow> Some j | _ \<Rightarrow> None)
      in if length errors > 0
         then Inl (InterviewServiceError ''Referential integrity validation failed''
                     ''INVALID_REFERENCES'' 400)
         else Inr (candidate, job))"

text \<open>The conflict check of \<^verbatim>\<open>createInterview\<close>.\<close>

definition scheduleConflictError :: exn where
  "scheduleConflictError = InterviewServiceError
     ''Schedule conflict: Candidate already has an interview scheduled within 30 minutes of this time''
     ''SCHEDULE_CONFLICT'' 409"

definition createConflictCheck :: "world \<Rightarrow> interviewData \<Rightarrow> store \<Rightarrow> exn + unit" where
  "createConflictCheck w d s =
     (case (in_candidateId d, in_date d, in_time d) of
        (Some c, Some dt, Some tm) \<Rightarrow>
          if c \<noteq> [] \<and> dt \<noteq> [] \<and> tm \<noteq> []
          then (case newObjectId c of
                  Inl e \<Rightarrow> Inl e
                | Inr cid \<Rightarrow>
                    if hasScheduleConflict s cid (newDateTime w dt tm) None
                    then Inl scheduleConflictError else Inr ())
          else Inr ()
      | _ \<Rightarrow> Inr ())"

text \<open>The names taken from the resolved candidate and job when the request has none.\<close>

definition fillNames :: "candidate option \<Rightarrow> job option \<Rightarrow> interviewData \<Rightarrow> interviewData" where
  "fillNames candidate job d =
     (let d1 = (case candidate of
                  Some c \<Rightarrow> if \<not> truthy (in_candidateName d)
                    then d \<lparr> in_candidateName := Some (firstName c @ '' '' @ lastName c) \<rparr> else d
                | None \<Rightarrow> d)
      in (case job of
            Some j \<Rightarrow> if \<not> truthy (in_jobTitle d1) then d1 \<lparr> in_jobTitle := Some (title j) \<rparr> else d1
          | None \<Rightarrow> d1))"

text \<open>The \<^verbatim>\<open>catch\<close> clause shared by create and update, with the operation's own
  message and code for an unexpected error.\<close>

definition serviceCatch :: "string \<Rightarrow> string \<Rightarrow> exn \<Rightarrow> exn" where
  "serviceCatch msg code e =
     (case e of
        ValidationError m f \<Rightarrow> InterviewServiceError m ''VALIDATION_ERROR'' 400
      | InterviewServiceError m c n \<Rightarrow> e
      | _ \<Rightarrow> InterviewServiceError msg code 500)"

text \<open>The \<^verbatim>\<open>catch\<close> clause of get and delete.\<close>

definition serviceRethrow :: "string \<Rightarrow> string \<Rightarrow> exn \<Rightarrow> exn" where
  "serviceRethrow msg code e =
     (case e of
        InterviewServiceError m c n \<Rightarrow> e
      | _ \<Rightarrow> InterviewServiceError msg code 500)"

definition mapError :: "(exn \<Rightarrow> exn) \<Rightarrow> (exn + 'a) \<times> store \<Rightarrow> (exn + 'a) \<times> store" where
  "mapError h r = (case r of (Inl e, s) \<Rightarrow> (Inl (h e), s) | (Inr v, s) \<Rightarrow> (Inr v, s))"

text \<open>\<^verbatim>\<open>createInterview\<close>: the body of the \<^verbatim>\<open>try\<close> block, and the operation.
  \<open>newId\<close> is the identifier generated for the insertion.\<close>

definition createInterview_try ::
  "world \<Rightarrow> ObjectId \<Rightarrow> interviewData \<Rightarrow> string option \<Rightarrow> store \<Rightarrow> (exn + display option) \<times> store" where
  "createInterview_try w newId interviewData userId s =
     (let sanitizedData = sanitizeInterviewInput interviewData in
      case validateInterviewData w sanitizedData of
        Inl e \<Rightarrow> (Inl e, s)
      | Inr u \<Rightarrow>
     (case validateReferences w (in_candidateId sanitizedData) (in_jobId sanitizedData) of
        Inl e \<Rightarrow> (Inl e, s)
      | Inr (candidate, job) \<Rightarrow>
     (let named = fillNames candidate job sanitizedData in
      case createConflictCheck w named s of
        Inl e \<Rightarrow> (Inl e, s)
      | Inr u \<Rightarrow>
     (case createInterviewDocument w (named \<lparr> in_createdBy := userId \<rparr>) of
        Inl e \<Rightarrow> (Inl e, s)
      | Inr interviewDoc \<Rightarrow>
     (case insertOne newId interviewDoc s of
        Inl e \<Rightarrow> (Inl e, s)
      | Inr s' \<Rightarrow>
     (let createdInterview = findOne (\<lambda>x. fst x = newId) s';
          enrichedInterview = map_option (enrichInterviewData w) createdInterview
      in (formatInterviewForDisplay w enrichedInterview, s')))))))"

definition createInterview ::
  "world \<Rightarrow> ObjectId \<Rightarrow> interviewData \<Rightarrow> string option \<Rightarrow> store \<Rightarrow> (exn + display option) \<times> store" where
  "createInterview w newId interviewData userId s =
     mapError (serviceCatch ''Failed to create interview'' ''CREATE_ERROR'')
       (createInterview_try w newId interviewData userId s)"

text \<open>\<^verbatim>\<open>getInterviewById\<close>\<close>

definition getInterviewById :: "world \<Rightarrow> string \<Rightarrow> store \<Rightarrow> exn + display option" where
  "getInterviewById w interviewId s =
     (if \<not> ObjectId_isValid interviewId
      then Inl (InterviewServiceError ''Invalid interview ID format'' ''INVALID_ID'' 400)
      else (case findOne (\<lambda>x. fst x = toLowerCase interviewId \<and> isActive (metadata (snd x))) s of
              None \<Rightarrow> Inr None
            | Some interview \<Rightarrow>
                (case formatInterviewForDisplay w (Some (enrichInterviewData w interview)) of
                   Inl e \<Rightarrow> Inl (serviceRethrow ''Failed to retrieve interview'' ''GET_ERROR'' e)
                 | Inr v \<Rightarrow> Inr v)))"








text \<open>Formatting a list of documents: the first exception ends it.\<close>

fun formatAll :: "world \<Rightarrow> enriched list \<Rightarrow> exn + display option list" where
  "formatAll w [] = Inr []"
| "formatAll w (x # xs) =
     (case formatInterviewForDisplay w (Some x) of
        Inl e \<Rightarrow> Inl e
      | Inr v \<Rightarrow> (case formatAll w xs of Inl e \<Rightarrow> Inl e | Inr vs \<Rightarrow> Inr (v # vs)))"



text \<open>\<^verbatim>\<open>updateInterview\<close>: the conflict check, the \<^verbatim>\<open>$set\<close> document as a function
  on the stored document, and the operation. \<open>existing\<close> is the display object that
  \<^verbatim>\<open>getInterviewById\<close> returned.\<close>

definition updateConflictCheck ::
  "world \<Rightarrow> string \<Rightarrow> display \<Rightarrow> interviewData \<Rightarrow> store \<Rightarrow> exn + unit" where
  "updateConflictCheck w interviewId existing u s =
     (if (truthy (in_date u) \<or> truthy (in_time u)) \<and> truthy (in_candidateId u)
      then (let newDateStr = (if truthy (in_date u) then the (in_date u) else d_date existing);
                newTimeStr = (if truthy (in_time u) then the (in_time u) else d_time existing);
                scheduled = newDateTime w newDateStr newTimeStr
            in case newObjectId (the (in_candidateId u)) of
                 Inl e \<Rightarrow> Inl e
               | Inr cid \<Rightarrow>
                   if hasScheduleConflict s cid scheduled (Some (toLowerCase interviewId))
                   then Inl scheduleConflictError else Inr ())
      else Inr ())"

definition setIfDefined :: "'a option \<Rightarrow> ('a \<Rightarrow> interview \<Rightarrow> interview) \<Rightarrow> interview \<Rightarrow> interview" where
  "setIfDefined v upd x = (case v of Some a \<Rightarrow> upd a x | None \<Rightarrow> x)"

definition updateDoc :: "world \<Rightarrow> display \<Rightarrow> interviewData \<Rightarrow> interview \<Rightarrow> interview" where
  "updateDoc w existing u x =
     (let x1 = x \<lparr> metadata := (metadata x) \<lparr> updatedAt := now w \<rparr> \<rparr>;
          x2 = setIfDefined (in_candidateName u) (\<lambda>v y. y \<lparr> candidateName := Some v \<rparr>) x1;
          x3 = setIfDefined (in_jobTitle u) (\<lambda>v y. y \<lparr> jobTitle := Some v \<rparr>) x2;
          x4 = setIfDefined (in_type u) (\<lambda>v y. y \<lparr> itype := v \<rparr>) x3;
          x5 = setIfDefined (in_interviewers u) (\<lambda>v y. y \<lparr> interviewers := v \<rparr>) x4;
          x6 = setIfDefined (in_notes u) (\<lambda>v y. y \<lparr> inotes := v \<rparr>) x5;
          x7 = setIfDefined (in_status u) (\<lambda>v y. y \<lparr> status := v \<rparr>) x6;
          x8 = (if truthy (in_date u) \<and> truthy (in_time u)
                then x7 \<lparr> scheduledDate := newDateTime w (the (in_date u)) (the (in_time u)) \<rparr>
                else x7)
      in if truthy (in_meetingType u) \<or> truthy (in_meetingLink u) \<or> truthy (in_location u)
         then x8 \<lparr> meetingDetails :=
           \<lparr> md_type = (if truthy (in_meetingType u) then the (in_meetingType u)
                         else md_type (d_meetingDetails existing)),
             md_link = (if truthy (in_meetingLink u) then in_meetingLink u
                        else md_link (d_meetingDetails existing)),
             md_location = (if truthy (in_location u) then in_location u
                            else md_location (d_meetingDetails existing)) \<rparr> \<rparr>
         else x8)"

definition updateInterview_try ::
  "world \<Rightarrow> string \<Rightarrow> interviewData \<Rightarrow> string option \<Rightarrow> store \<Rightarrow> (exn + display option) \<times> store" where
  "updateInterview_try w interviewId updates userId s =
     (if \<not> ObjectId_isValid interviewId
      then (Inl (InterviewServiceError ''Invalid interview ID format'' ''INVALID_ID'' 400), s)
      else
     (case getInterviewById w interviewId s of
        Inl e \<Rightarrow> (Inl e, s)
      | Inr None \<Rightarrow> (Inl (InterviewServiceError ''Interview not found'' ''NOT_FOUND'' 404), s)
      | Inr (Some existingInterview) \<Rightarrow>
     (let sanitizedUpdates = sanitizeInterviewInput updates in
      case updateConflictCheck w interviewId existingInterview sanitizedUpdates s of
        Inl e \<Rightarrow> (Inl e, s)
      | Inr u \<Rightarrow>
     (case findOneAndUpdate
             (\<lambda>x. fst x = toLowerCase interviewId \<and> isActive (metadata (snd x)))
             (updateDoc w existingInterview sanitizedUpdates) s of
        (None, s') \<Rightarrow>
          (Inl (InterviewServiceError ''Failed to update interview'' ''UPDATE_FAILED'' 500), s')
      | (Some (before, after), s') \<Rightarrow>
          (formatInterviewForDisplay w (Some (after, noEnrichment)), s')))))"

definition updateInterview ::
  "world \<Rightarrow> string \<Rightarrow> interviewData \<Rightarrow> string option \<Rightarrow> store \<Rightarrow> (exn + display option) \<times> store" where
  "updateInterview w interviewId updates userId s =
     mapError (serviceCatch ''Failed to update interview'' ''UPDATE_ERROR'')
       (updateInterview_try w interviewId updates userId s)"



text \<open>\<^verbatim>\<open>getInterviewStats\<close>. The histogram is the object that the \<^verbatim>\<open>reduce\<close>
  builds, as the list of its keys and counts in insertion order; type values are taken not
  to name a property that every object inherits. The summary of interviewer initials is
  not part of this development.\<close>

fun countType :: "(string \<times> nat) list \<Rightarrow> string \<Rightarrow> (string \<times> nat) list" where
  "countType [] k = [(k, 1)]"
| "countType ((k', n) # acc) k =
     (if k' = k then (k', n + 1) # acc else (k', n) # countType acc k)"

record stats =
  st_date :: string
  totalInterviews :: nat
  interviewsByType :: "(string \<times> nat) list"
  st_interviews :: "display option list"

definition todayInterviews :: "world \<Rightarrow> store \<Rightarrow> int \<Rightarrow> stored list" where
  "todayInterviews w s date =
     filter (\<lambda>x. status (snd x) = ''scheduled'' \<or> status (snd x) = ''rescheduled'')
       (getInterviewsForDate w s date)"

definition getInterviewStats :: "world \<Rightarrow> int \<Rightarrow> store \<Rightarrow> exn + stats" where
  "getInterviewStats w date s =
     (let today = todayInterviews w s date in
      case formatAll w (map (\<lambda>x. (x, noEnrichment)) today) of
        Inl e \<Rightarrow> Inl (InterviewServiceError ''Failed to get interview statistics'' ''STATS_ERROR'' 500)
      | Inr ds \<Rightarrow> Inr
          \<lparr> st_date = toISODate date,
            totalInterviews = length today,
            interviewsByType = foldl (\<lambda>acc x. countType acc (itype (snd x))) [] today,
            st_interviews = ds \<rparr>)"

subsection \<open>Notions used in the statements\<close>

text \<open>The collection without its soft-deleted documents.\<close>

definition activeOnly :: "store \<Rightarrow> store" where
  "activeOnly s = filter (\<lambda>x. isActive (metadata (snd x))) s"

text \<open>The strings an exception carries, and whether a text occurs in one of them.\<close>

definition exnStrings :: "exn \<Rightarrow> string list" where
  "exnStrings e =
     (case e of
        ValidationError m f \<Rightarrow>
          m # (case f of
                 FieldList vs \<Rightarrow> concat (map (\<lambda>(a, b). [a, b]) vs)
               | FieldName n \<Rightarrow> [n]
               | NoField \<Rightarrow> [])
      | InterviewServiceError m c n \<Rightarrow> [m, c]
      | Error m \<Rightarrow> [m]
      | RangeError m \<Rightarrow> [m])"

definition occursIn :: "string \<Rightarrow> string \<Rightarrow> bool" where
  "occursIn m s = list_ex (\<lambda>k. take (length m) (drop k s) = m) [0..<Suc (length s)]"

definition mentions :: "exn \<Rightarrow> string \<Rightarrow> bool" where
  "mentions e m = list_ex (occursIn m) (exnStrings e)"

subsection \<open>Concrete inputs\<close>

definition w0 :: world where
  "w0 = \<lparr> tzMinutes = 0, now = 1793620800000, hostParse = (\<lambda>s. None),
          getCandidateById = (\<lambda>i. NotFound), getJobById = (\<lambda>i. NotFound) \<rparr>"

definition cand0 :: candidate where
  "cand0 = \<lparr> firstName = ''Ada'', lastName = ''Lovelace'', email = ''ada@example.com'',
             currentStage = ''interview'' \<rparr>"

definition job0 :: job where
  "job0 = \<lparr> title = ''Engineer'', department = ''Engineering'', jobStatus = ''active'' \<rparr>"

definition w1 :: world where
  "w1 = \<lparr> tzMinutes = 0, now = 1793620800000, hostParse = (\<lambda>s. None),
          getCandidateById = (\<lambda>i. Found cand0), getJobById = (\<lambda>i. Found job0) \<rparr>"

definition data0 :: interviewData where
  "data0 = \<lparr> in_candidateId = Some ''507f1f77bcf86cd799439011'',
             in_candidateName = Some ''Ada Lovelace'',
             in_jobId = Some ''507f191e810c19729de860ea'',
             in_jobTitle = Some ''Engineer'',
             in_type = Some ''technical'',
             in_date = Some ''2026-12-01'',
             in_time = Some ''10:00'',
             in_duration = Some 60,
             in_interviewers = Some [''Grace Hopper''],
             in_meetingType = Some ''video'',
             in_meetingLink = Some ''https://meet.example.com/abc'',
             in_location = None,
             in_notes = None,
             in_status = None,
             in_createdBy = None \<rparr>"

definition idA :: ObjectId where
  "idA = ''65a000000000000000000001''"


definition docA :: interview where
  "docA = \<lparr> candidateId = Some ''507f1f77bcf86cd799439011'',
            candidateName = Some ''Ada Lovelace'',
            jobId = Some ''507f191e810c19729de860ea'',
            jobTitle = Some ''Engineer'',
            scheduledDate = Some 1796119200000,
            duration = 60,
            itype = ''technical'',
            interviewers = [''Grace Hopper''],
            meetingDetails = \<lparr> md_type = ''video'',
              md_link = Some ''https://meet.example.com/abc'', md_location = None \<rparr>,
            inotes = [],
            status = ''scheduled'',
            metadata = \<lparr> createdAt = 1793620800000, updatedAt = 1793620800000,
              createdBy = None, isActive = True, deletedAt = None, deletedBy = None \<rparr> \<rparr>"

definition storeA :: store where
  "storeA = [(idA, docA)]"



text \<open>Patches: the empty patch, and one that names the candidate and a new date but
  no time.\<close>

definition noData :: interviewData where
  "noData = \<lparr> in_candidateId = None, in_candidateName = None, in_jobId = None,
              in_jobTitle = None, in_type = None, in_date = None, in_time = None,
              in_duration = None, in_interviewers = None, in_meetingType = None,
              in_meetingLink = None, in_location = None, in_notes = None, in_status = None,
              in_createdBy = None \<rparr>"

definition patchDateOnly :: interviewData where
  "patchDateOnly = noData \<lparr> in_candidateId := Some ''507f1f77bcf86cd799439011'',
                            in_date := Some ''2026-12-02'' \<rparr>"





text \<open>Environments in which the job, or the candidate, has been deleted.\<close>

definition wJobMissing :: world where
  "wJobMissing = w1 \<lparr> getJobById := (\<lambda>i. NotFound) \<rparr>"

definition wCandidateMissing :: world where
  "wCandidateMissing = w1 \<lparr> getCandidateById := (\<lambda>i. NotFound) \<rparr>"

text \<open>Requests that break several rules at once: a malformed candidate identifier with a
  time outside business hours, and the same with an unknown interview type as well.\<close>

definition dataBad :: interviewData where
  "dataBad = data0 \<lparr> in_candidateId := Some ''not-an-id'', in_time := Some ''07:00'' \<rparr>"

definition dataBad3 :: interviewData where
  "dataBad3 = dataBad \<lparr> in_type := Some ''panel'' \<rparr>"

text \<open>A patch that sets a type outside the enumeration.\<close>

definition patchUnknownType :: interviewData where
  "patchUnknownType = noData \<lparr> in_type := Some ''unknown_type'' \<rparr>"


definition wWest :: world where
  "wWest = w1 \<lparr> tzMinutes := - 300 \<rparr>"

definition wEast :: world where
  "wEast = w1 \<lparr> tzMinutes := 540 \<rparr>"

definition wLenient :: world where
  "wLenient = w1 \<lparr> hostParse := (\<lambda>s. if s = ''2027-02-30'' then Some 1803945600000 else None) \<rparr>"

section \<open>Properties\<close>

subsection \<open>Conflict detection\<close>











subsection \<open>Soft deletion\<close>


lemma find_active_absorb:
  assumes "\<And>x. P x \<Longrightarrow> isActive (metadata (snd x))"
  shows "find P (activeOnly s) = find P s"
  unfolding activeOnly_def using assms by (induction s) auto

lemma getInterviewById_activeOnly:
  "getInterviewById w j (activeOnly s) = getInterviewById w j s"
proof -
  have "find (\<lambda>x. fst x = toLowerCase j \<and> isActive (metadata (snd x))) (activeOnly s)
      = find (\<lambda>x. fst x = toLowerCase j \<and> isActive (metadata (snd x))) s"
    by (rule find_active_absorb) simp
  then show ?thesis by (simp add: getInterviewById_def findOne_def)
qed










lemma updateFirst_map_fst: "map fst (updateFirst P f s) = map fst s"
  by (induction s) auto

lemma updateFirst_frame:
  assumes "\<And>x. g (f x) = g x"
  shows "map (\<lambda>x. g (snd x)) (updateFirst P f s) = map (\<lambda>x. g (snd x)) s"
  using assms by (induction s) auto



subsection \<open>Updates\<close>

lemma updateDoc_frame:
  "candidateId (updateDoc w ex u x) = candidateId x"
  "jobId (updateDoc w ex u x) = jobId x"
  "duration (updateDoc w ex u x) = duration x"
  by (simp_all add: updateDoc_def Let_def setIfDefined_def split: option.splits)

lemma updateDoc_scheduledDate:
  "\<not> (truthy (in_date u) \<and> truthy (in_time u)) \<Longrightarrow>
     scheduledDate (updateDoc w ex u x) = scheduledDate x"
  by (auto simp: updateDoc_def Let_def setIfDefined_def split: option.splits)


lemma mapError_snd: "snd (mapError h r) = snd r"
  by (cases r; cases "fst r") (auto simp: mapError_def)

lemma updateInterview_store:
  "snd (updateInterview w iid u uid s) = s \<or>
   (\<exists>ex. snd (updateInterview w iid u uid s) =
      updateFirst (\<lambda>x. fst x = toLowerCase iid \<and> isActive (metadata (snd x)))
        (updateDoc w ex (sanitizeInterviewInput u)) s)"
proof -
  let ?P = "\<lambda>x. fst x = toLowerCase iid \<and> isActive (metadata (snd x))"
  have "snd (updateInterview_try w iid u uid s) = s \<or>
   (\<exists>ex. snd (updateInterview_try w iid u uid s) =
      updateFirst ?P (updateDoc w ex (sanitizeInterviewInput u)) s)"
  proof (cases "getInterviewById w iid s")
    case (Inl e)
    then show ?thesis by (simp add: updateInterview_try_def Let_def)
  next
    case (Inr v)
    show ?thesis
    proof (cases v)
      case None
      with Inr show ?thesis by (simp add: updateInterview_try_def Let_def)
    next
      case (Some ex)
      show ?thesis
      proof (cases "updateConflictCheck w iid ex (sanitizeInterviewInput u) s")
        case (Inl e)
        with Inr Some show ?thesis by (simp add: updateInterview_try_def Let_def)
      next
        case c: (Inr ok)
        show ?thesis
        proof (cases "find ?P s")
          case None
          with Inr Some c show ?thesis
            by (simp add: updateInterview_try_def findOneAndUpdate_def Let_def)
        next
          case f: (Some y)
          have "snd (updateInterview_try w iid u uid s) =
              updateFirst ?P (updateDoc w ex (sanitizeInterviewInput u)) s
              \<or> snd (updateInterview_try w iid u uid s) = s"
            using Inr Some c f by (simp add: updateInterview_try_def findOneAndUpdate_def Let_def)
          then show ?thesis by blast
        qed
      qed
    qed
  qed
  then show ?thesis by (simp add: updateInterview_def mapError_snd)
qed

lemma truthy_sanitizeIfTruthy: "truthy (sanitizeIfTruthy f v) \<Longrightarrow> truthy v"
  by (auto simp: sanitizeIfTruthy_def split: if_splits)

lemma sanitize_date_time:
  "in_date (sanitizeInterviewInput u) = sanitizeIfTruthy trim (in_date u)"
  "in_time (sanitizeInterviewInput u) = sanitizeIfTruthy trim (in_time u)"
  by (simp_all add: sanitizeInterviewInput_def)








subsection \<open>References\<close>

lemma validateReferences_errors_parts:
  "(getCandidateById w c = NotFound
      \<longrightarrow> (''candidateId'', ''Referenced candidate does not exist'') \<in> set (validateReferences_errors w c j))
   \<and> (getCandidateById w c = LookupFailed
      \<longrightarrow> (''candidateId'', ''Failed to validate candidate reference'') \<in> set (validateReferences_errors w c j))
   \<and> (getJobById w j = NotFound
      \<longrightarrow> (''jobId'', ''Referenced job does not exist'') \<in> set (validateReferences_errors w c j))
   \<and> (getJobById w j = LookupFailed
      \<longrightarrow> (''jobId'', ''Failed to validate job reference'') \<in> set (validateReferences_errors w c j))"
  by (auto simp: validateReferences_errors_def split: lookup.splits)

lemma validateReferences_cases:
  "validateReferences w c j =
     (case (getCandidateById w c, getJobById w j) of
        (Found cv, Found jv) \<Rightarrow> Inr (Some cv, Some jv)
      | _ \<Rightarrow> Inl (InterviewServiceError ''Referential integrity validation failed''
                     ''INVALID_REFERENCES'' 400))"
  by (auto simp: validateReferences_def validateReferences_errors_def Let_def split: lookup.splits)

lemma createInterview_bad_reference:
  assumes "validateInterviewData w (sanitizeInterviewInput d) = Inr ()"
    and "\<not> ((\<exists>cv. getCandidateById w (in_candidateId (sanitizeInterviewInput d)) = Found cv)
           \<and> (\<exists>jv. getJobById w (in_jobId (sanitizeInterviewInput d)) = Found jv))"
  shows "createInterview w newId d userId s =
     (Inl (InterviewServiceError ''Referential integrity validation failed''
             ''INVALID_REFERENCES'' 400), s)"
proof -
  have "validateReferences w (in_candidateId (sanitizeInterviewInput d))
          (in_jobId (sanitizeInterviewInput d))
      = Inl (InterviewServiceError ''Referential integrity validation failed''
               ''INVALID_REFERENCES'' 400)"
    using assms(2) unfolding validateReferences_cases by (auto split: lookup.splits)
  then show ?thesis
    using assms(1)
    by (simp add: createInterview_def createInterview_try_def Let_def mapError_def serviceCatch_def)
qed

lemma mentions_example:
  "mentions (Error ''Referenced job does not exist; Referenced candidate does not exist'')
     ''Referenced candidate does not exist''"
  by code_simp

subsection \<open>Validation\<close>

lemma idBlock_fields:
  "map fst (case v of
              None \<Rightarrow> [(f, m1)]
            | Some s \<Rightarrow> if s = [] then [(f, m1)]
                else if \<not> ObjectId_isValid s then [(f, m2)] else [])
   = (if \<not> (\<exists>s. v = Some s \<and> ObjectId_isValid s) then [f] else [])"
  by (cases v) (auto simp: ObjectId_isValid_def)

lemma nameBlock_fields:
  "map fst (case v of
              None \<Rightarrow> [(f, m1)]
            | Some s \<Rightarrow> if s = [] then [(f, m1)]
                else if length (trim s) < 1 then [(f, m2)]
                else if length (trim s) > 100 then [(f, m3)] else [])
   = (if \<not> (\<exists>s. v = Some s \<and> 1 \<le> length (trim s) \<and> length (trim s) \<le> 100)
      then [f] else [])"
  by (cases v) (auto simp: trim_def Suc_le_eq)

lemma typeBlock_fields:
  "map fst (case v of
              None \<Rightarrow> [(f, m1)]
            | Some s \<Rightarrow> if s = [] then [(f, m1)]
                else if s \<notin> set INTERVIEW_TYPES then [(f, m2)] else [])
   = (if \<not> (\<exists>s. v = Some s \<and> s \<in> set INTERVIEW_TYPES) then [f] else [])"
  by (cases v) (auto simp: INTERVIEW_TYPES_def)

lemma basic_fields:
  "map fst (validateInterviewBasicInfo_errors d) =
     (if \<not> (\<exists>s. in_candidateId d = Some s \<and> ObjectId_isValid s) then [''candidateId''] else [])
   @ (if \<not> (\<exists>s. in_candidateName d = Some s \<and> 1 \<le> length (trim s) \<and> length (trim s) \<le> 100)
      then [''candidateName''] else [])
   @ (if \<not> (\<exists>s. in_jobId d = Some s \<and> ObjectId_isValid s) then [''jobId''] else [])
   @ (if \<not> (\<exists>s. in_jobTitle d = Some s \<and> 1 \<le> length (trim s) \<and> length (trim s) \<le> 100)
      then [''jobTitle''] else [])
   @ (if \<not> (\<exists>s. in_type d = Some s \<and> s \<in> set INTERVIEW_TYPES) then [''type''] else [])"
  unfolding validateInterviewBasicInfo_errors_def map_append
    idBlock_fields nameBlock_fields typeBlock_fields ..

lemma basic_fields_distinct: "distinct (map fst (validateInterviewBasicInfo_errors d))"
  unfolding basic_fields by auto

lemma validateInterviewData_first_facet:
  "validateInterviewData w d =
    (if validateInterviewBasicInfo_errors d \<noteq> []
     then Inl (ValidationError ''Interview basic information validation failed''
                 (FieldList (validateInterviewBasicInfo_errors d)))
     else if dateErrors w (in_date d) @ timeErrors (in_time d)
              @ datetimeErrors w (in_date d) (in_time d) \<noteq> []
     then Inl (ValidationError ''Date and time validation failed''
                 (FieldList (dateErrors w (in_date d) @ timeErrors (in_time d)
                    @ datetimeErrors w (in_date d) (in_time d))))
     else if validateInterviewDuration_errors (in_duration d) \<noteq> []
     then Inl (ValidationError ''Duration validation failed''
                 (FieldList (validateInterviewDuration_errors (in_duration d))))
     else if validateInterviewers_errors (in_interviewers d) \<noteq> []
     then Inl (ValidationError ''Interviewers validation failed''
                 (FieldList (validateInterviewers_errors (in_interviewers d))))
     else if validateMeetingDetails_errors (in_meetingType d) (in_meetingLink d) (in_location d) \<noteq> []
     then Inl (ValidationError ''Meeting details validation failed''
                 (FieldList (validateMeetingDetails_errors (in_meetingType d) (in_meetingLink d)
                    (in_location d))))
     else if validateInterviewNotes_errors (in_notes d) \<noteq> []
     then Inl (ValidationError ''Notes validation failed''
                 (FieldList (validateInterviewNotes_errors (in_notes d))))
     else validateInterviewStatus (in_status d))"
  by (simp add: validateInterviewData_def andThen_def throwIfAny_def
      validateInterviewBasicInfo_def validateDateTimeConstraints_def validateInterviewDuration_def
      validateInterviewers_def validateMeetingDetails_def validateInterviewNotes_def)

subsection \<open>Reads\<close>

lemma formatInterviewForDisplay_ignores_enrichment:
  "formatInterviewForDisplay w (Some (x, e)) = formatInterviewForDisplay w (Some (x, e'))"
  by (cases x) (simp add: formatInterviewForDisplay_def)

lemma getInterviewById_ignores_lookups:
  "getInterviewById (w \<lparr> getCandidateById := g, getJobById := h \<rparr>) iid s = getInterviewById w iid s"
proof -
  have f: "formatInterviewForDisplay (w \<lparr> getCandidateById := g, getJobById := h \<rparr>) v
      = formatInterviewForDisplay w v" for v
    by (simp add: formatInterviewForDisplay_def toTimeHHMM_def LocalTime_def
        split: option.splits prod.splits)
  have e: "formatInterviewForDisplay w (Some (enrichInterviewData w' x))
      = formatInterviewForDisplay w (Some (enrichInterviewData w x))" for w' x
    by (simp add: enrichInterviewData_def Let_def formatInterviewForDisplay_ignores_enrichment)
  show ?thesis
    unfolding getInterviewById_def f e[of "w \<lparr> getCandidateById := g, getJobById := h \<rparr>"] ..
qed

subsection \<open>Date and time validation\<close>








subsection \<open>The calendar\<close>












subsection \<open>Decimal fields\<close>





















subsection \<open>Printing a date\<close>











subsection \<open>Statistics\<close>

text \<open>\<^verbatim>\<open>getInterviewStats\<close> always returns. It counts the active interviews of the local
  day with status scheduled or rescheduled, and its histogram has a key for every type
  value that occurs among them, with the number of occurrences.\<close>

lemma map_of_countType:
  "map_of (countType acc k) k' =
     (if k' = k then Some (case map_of acc k of None \<Rightarrow> 1 | Some n \<Rightarrow> n + 1)
      else map_of acc k')"
  by (induction acc k rule: countType.induct) auto

lemma map_of_histogram:
  "map_of (foldl (\<lambda>acc x. countType acc (f x)) acc xs) k =
     (case map_of acc k of
        None \<Rightarrow> if filter (\<lambda>x. f x = k) xs = [] then None
                 else Some (length (filter (\<lambda>x. f x = k) xs))
      | Some c \<Rightarrow> Some (c + length (filter (\<lambda>x. f x = k) xs)))"
proof (induction xs arbitrary: acc)
  case Nil
  then show ?case by (simp split: option.splits)
next
  case (Cons x xs)
  show ?case
    by (simp add: Cons.IH map_of_countType split: option.splits)
qed

lemma formatAll_total:
  assumes "\<forall>x \<in> set xs. scheduledDate (snd (fst x)) \<noteq> None"
  shows "\<exists>ds. formatAll w xs = Inr ds \<and> length ds = length xs"
  using assms
proof (induction xs)
  case Nil
  then show ?case by simp
next
  case (Cons x xs)
  then obtain ds where ds: "formatAll w xs = Inr ds" "length ds = length xs" by auto
  from Cons.prems obtain t where t: "scheduledDate (snd (fst x)) = Some t" by auto
  obtain i y e where x: "x = ((i, y), e)" by (cases x) auto
  show ?case using ds t unfolding x by (simp add: formatInterviewForDisplay_def)
qed

lemma todayInterviews_set:
  "set (todayInterviews w s d) =
     {x \<in> set s. isActive (metadata (snd x))
        \<and> (\<exists>t. scheduledDate (snd x) = Some t
              \<and> setHours w d 0 0 0 0 \<le> t \<and> t \<le> setHours w d 23 59 59 999)
        \<and> (status (snd x) = ''scheduled'' \<or> status (snd x) = ''rescheduled'')}"
  by (auto simp: todayInterviews_def getInterviewsForDate_def Let_def dateGte_def dateLte_def
      split: option.splits)

lemma todayInterviews_length:
  "length (todayInterviews w s d) =
     length (filter (\<lambda>x. isActive (metadata (snd x))
        \<and> (\<exists>t. scheduledDate (snd x) = Some t
              \<and> setHours w d 0 0 0 0 \<le> t \<and> t \<le> setHours w d 23 59 59 999)
        \<and> (status (snd x) = ''scheduled'' \<or> status (snd x) = ''rescheduled'')) s)"
proof -
  have "length (todayInterviews w s d) =
      length (filter (\<lambda>x. status (snd x) = ''scheduled'' \<or> status (snd x) = ''rescheduled'')
        (filter (\<lambda>x. dateGte (scheduledDate (snd x)) (Some (setHours w d 0 0 0 0))
                       \<and> dateLte (scheduledDate (snd x)) (Some (setHours w d 23 59 59 999))
                       \<and> isActive (metadata (snd x))) s))"
    unfolding todayInterviews_def getInterviewsForDate_def Let_def
    by (simp add: filter_sort del: filter_filter)
  also have "\<dots> = length (filter (\<lambda>x. isActive (metadata (snd x))
        \<and> (\<exists>t. scheduledDate (snd x) = Some t
              \<and> setHours w d 0 0 0 0 \<le> t \<and> t \<le> setHours w d 23 59 59 999)
        \<and> (status (snd x) = ''scheduled'' \<or> status (snd x) = ''rescheduled'')) s)"
    unfolding filter_filter
    by (rule arg_cong[where f = length], rule filter_cong)
      (auto simp: dateGte_def dateLte_def split: option.splits)
  finally show ?thesis .
qed

lemma getInterviewStats_general:
  "\<exists>st. getInterviewStats w d s = Inr st
     \<and> totalInterviews st = length (todayInterviews w s d)
     \<and> (\<forall>k. map_of (interviewsByType st) k =
           (if filter (\<lambda>x. itype (snd x) = k) (todayInterviews w s d) = [] then None
            else Some (length (filter (\<lambda>x. itype (snd x) = k) (todayInterviews w s d)))))"
proof -
  have "\<forall>x \<in> set (map (\<lambda>x. (x, noEnrichment)) (todayInterviews w s d)).
      scheduledDate (snd (fst x)) \<noteq> None"
    by (auto simp: todayInterviews_set)
  from formatAll_total[OF this, of w] obtain ds where
    "formatAll w (map (\<lambda>x. (x, noEnrichment)) (todayInterviews w s d)) = Inr ds" by blast
  then show ?thesis
    by (simp add: getInterviewStats_def Let_def map_of_histogram)
qed

subsection \<open>Business hours\<close>



subsection \<open>Schedule conflicts\<close>



subsection \<open>Soft-deleted interviews\<close>



subsection \<open>What an update leaves alone\<close>

text \<open>
  C10. Whatever the patch and the outcome, \<^verbatim>\<open>updateInterview\<close> leaves the identifiers
  of the collection and the fields \<^verbatim>\<open>candidateId\<close>, \<^verbatim>\<open>jobId\<close> and
  \<^verbatim>\<open>duration\<close> of every document as they were, and it leaves every
  \<^verbatim>\<open>scheduledDate\<close> as it was unless the patch holds both a date and a time (before
  and after sanitizing); this includes the runs in which a conflict check was made.
\<close>

theorem update_frame:
  "map fst (snd (updateInterview w iid u uid s)) = map fst s
   \<and> map (\<lambda>x. candidateId (snd x)) (snd (updateInterview w iid u uid s))
       = map (\<lambda>x. candidateId (snd x)) s
   \<and> map (\<lambda>x. jobId (snd x)) (snd (updateInterview w iid u uid s))
       = map (\<lambda>x. jobId (snd x)) s
   \<and> map (\<lambda>x. duration (snd x)) (snd (updateInterview w iid u uid s))
       = map (\<lambda>x. duration (snd x)) s
   \<and> (\<not> (truthy (in_date (sanitizeInterviewInput u)) \<and> truthy (in_time (sanitizeInterviewInput u)))
        \<longrightarrow> map (\<lambda>x. scheduledDate (snd x)) (snd (updateInterview w iid u uid s))
            = map (\<lambda>x. scheduledDate (snd x)) s)
   \<and> (\<not> (truthy (in_date u) \<and> truthy (in_time u))
        \<longrightarrow> map (\<lambda>x. scheduledDate (snd x)) (snd (updateInterview w iid u uid s))
            = map (\<lambda>x. scheduledDate (snd x)) s)"
proof -
  let ?su = "sanitizeInterviewInput u"
  let ?P = "\<lambda>x. fst x = toLowerCase iid \<and> isActive (metadata (snd x))"
  let ?R = "snd (updateInterview w iid u uid s)"
  from updateInterview_store[of w iid u uid s]
  consider "?R = s" | ex where "?R = updateFirst ?P (updateDoc w ex ?su) s"
    by blast
  then have main: "map fst ?R = map fst s
    \<and> map (\<lambda>x. candidateId (snd x)) ?R = map (\<lambda>x. candidateId (snd x)) s
    \<and> map (\<lambda>x. jobId (snd x)) ?R = map (\<lambda>x. jobId (snd x)) s
    \<and> map (\<lambda>x. duration (snd x)) ?R = map (\<lambda>x. duration (snd x)) s
    \<and> (\<not> (truthy (in_date ?su) \<and> truthy (in_time ?su))
        \<longrightarrow> map (\<lambda>x. scheduledDate (snd x)) ?R = map (\<lambda>x. scheduledDate (snd x)) s)"
  proof cases
    case 1
    then show ?thesis by simp
  next
    case 2
    have "map (\<lambda>x. scheduledDate (snd x)) (updateFirst ?P (updateDoc w ex ?su) s)
        = map (\<lambda>x. scheduledDate (snd x)) s"
      if "\<not> (truthy (in_date ?su) \<and> truthy (in_time ?su))"
      by (rule updateFirst_frame) (rule updateDoc_scheduledDate[OF that])
    then show ?thesis
      unfolding 2
      by (simp add: updateFirst_map_fst updateFirst_frame updateDoc_frame)
  qed
  have "\<not> (truthy (in_date ?su) \<and> truthy (in_time ?su))"
    if "\<not> (truthy (in_date u) \<and> truthy (in_time u))"
    using that truthy_sanitizeIfTruthy[of trim "in_date u"]
      truthy_sanitizeIfTruthy[of trim "in_time u"]
    by (auto simp: sanitize_date_time)
  with main show ?thesis by blast
qed

theorem update_frame_witness:
  "\<not> (truthy (in_date patchDateOnly) \<and> truthy (in_time patchDateOnly))
   \<and> map (\<lambda>x. scheduledDate (snd x)) (snd (updateInterview w1 idA patchDateOnly None storeA))
       = map (\<lambda>x. scheduledDate (snd x)) storeA
   \<and> updateConflictCheck w1 idA (the (projr (getInterviewById w1 idA storeA)))
         (sanitizeInterviewInput patchDateOnly) storeA = Inr ()
   \<and> (truthy (in_date (sanitizeInterviewInput patchDateOnly))
         \<and> truthy (in_candidateId (sanitizeInterviewInput patchDateOnly)))
   \<and> \<not> isl (fst (updateInterview w1 idA patchDateOnly None storeA))"
proof -
  have h1: "\<not> (truthy (in_date patchDateOnly) \<and> truthy (in_time patchDateOnly))"
    by code_simp
  have h2: "updateConflictCheck w1 idA (the (projr (getInterviewById w1 idA storeA)))
         (sanitizeInterviewInput patchDateOnly) storeA = Inr ()"
    by code_simp
  have h3: "truthy (in_date (sanitizeInterviewInput patchDateOnly))
         \<and> truthy (in_candidateId (sanitizeInterviewInput patchDateOnly))"
    by code_simp
  have h4: "\<not> isl (fst (updateInterview w1 idA patchDateOnly None storeA))"
    by code_simp
  show ?thesis
    using update_frame[of w1 idA patchDateOnly None storeA] h1 h2 h3 h4 by blast
qed

subsection \<open>The conflict check of an update\<close>




subsection \<open>Missing references\<close>

text \<open>
  C8, as stated, fails in its last part: with both references missing the two messages
  are collected, but the error that is raised carries neither of them; it is the error
  raised when only the job is missing.
\<close>

theorem reference_error_carries_no_messages:
  "validateReferences_errors w0 (Some ''507f1f77bcf86cd799439011'') (Some ''507f191e810c19729de860ea'')
     = [(''candidateId'', ''Referenced candidate does not exist''),
        (''jobId'', ''Referenced job does not exist'')]
   \<and> validateReferences w0 (Some ''507f1f77bcf86cd799439011'') (Some ''507f191e810c19729de860ea'')
     = Inl (InterviewServiceError ''Referential integrity validation failed'' ''INVALID_REFERENCES'' 400)
   \<and> \<not> mentions (InterviewServiceError ''Referential integrity validation failed'' ''INVALID_REFERENCES'' 400)
          ''Referenced candidate does not exist''
   \<and> \<not> mentions (InterviewServiceError ''Referential integrity validation failed'' ''INVALID_REFERENCES'' 400)
          ''Referenced job does not exist''
   \<and> validateReferences wJobMissing (Some ''507f1f77bcf86cd799439011'') (Some ''507f191e810c19729de860ea'')
     = validateReferences w0 (Some ''507f1f77bcf86cd799439011'') (Some ''507f191e810c19729de860ea'')"
  by code_simp

text \<open>
  C8, amended. At creation both lookups are always made: each lookup that does not return
  an entity adds its own violation to the collected list, whatever the other lookup gave.
  If either lookup returns \<^verbatim>\<open>null\<close> or fails, the create ends with the one fixed
  referential-integrity error (code \<^verbatim>\<open>INVALID_REFERENCES\<close>, status 400), the same
  for one and for two missing references, and the collection is unchanged.
\<close>

theorem reference_validation:
  assumes "validateInterviewData w (sanitizeInterviewInput d) = Inr ()"
    and "cid = in_candidateId (sanitizeInterviewInput d)"
    and "jid = in_jobId (sanitizeInterviewInput d)"
  shows "validateReferences w cid jid =
           (case (getCandidateById w cid, getJobById w jid) of
              (Found cv, Found jv) \<Rightarrow> Inr (Some cv, Some jv)
            | _ \<Rightarrow> Inl (InterviewServiceError ''Referential integrity validation failed''
                           ''INVALID_REFERENCES'' 400))
    \<and> (getCandidateById w cid = NotFound \<longrightarrow>
          (''candidateId'', ''Referenced candidate does not exist'')
            \<in> set (validateReferences_errors w cid jid))
    \<and> (getCandidateById w cid = LookupFailed \<longrightarrow>
          (''candidateId'', ''Failed to validate candidate reference'')
            \<in> set (validateReferences_errors w cid jid))
    \<and> (getJobById w jid = NotFound \<longrightarrow>
          (''jobId'', ''Referenced job does not exist'') \<in> set (validateReferences_errors w cid jid))
    \<and> (getJobById w jid = LookupFailed \<longrightarrow>
          (''jobId'', ''Failed to validate job reference'') \<in> set (validateReferences_errors w cid jid))
    \<and> (\<not> ((\<exists>cv. getCandidateById w cid = Found cv) \<and> (\<exists>jv. getJobById w jid = Found jv)) \<longrightarrow>
          createInterview w newId d userId s =
            (Inl (InterviewServiceError ''Referential integrity validation failed''
                    ''INVALID_REFERENCES'' 400), s))"
  using validateReferences_cases[of w cid jid] validateReferences_errors_parts[of w cid jid]
    createInterview_bad_reference[OF assms(1), of newId userId s]
  unfolding assms(2,3) by blast

theorem reference_validation_witness:
  "validateInterviewData w0 (sanitizeInterviewInput data0) = Inr ()
   \<and> getCandidateById w0 (in_candidateId (sanitizeInterviewInput data0)) = NotFound
   \<and> getJobById w0 (in_jobId (sanitizeInterviewInput data0)) = NotFound
   \<and> createInterview w0 idA data0 None [] =
        (Inl (InterviewServiceError ''Referential integrity validation failed''
                ''INVALID_REFERENCES'' 400), [])"
proof -
  have h1: "validateInterviewData w0 (sanitizeInterviewInput data0) = Inr ()"
    by code_simp
  have h2: "getCandidateById w0 (in_candidateId (sanitizeInterviewInput data0)) = NotFound"
    by code_simp
  have h3: "getJobById w0 (in_jobId (sanitizeInterviewInput data0)) = NotFound"
    by code_simp
  from reference_validation[OF h1 refl refl, of idA None "[]"] h2
  have "createInterview w0 idA data0 None [] =
        (Inl (InterviewServiceError ''Referential integrity validation failed''
                ''INVALID_REFERENCES'' 400), [])"
    by simp
  with h1 h2 h3 show ?thesis by blast
qed

subsection \<open>Completeness of validation errors\<close>

text \<open>
  C3, as stated, fails: a request with a malformed candidate identifier and a time outside
  business hours breaks two rules, each reported by its own validator, yet
  \<^verbatim>\<open>validateInterviewData\<close> raises the error of the basic-information validator alone,
  with one violation.
\<close>

theorem validation_stops_at_first_facet:
  "validateInterviewData w1 dataBad =
     Inl (ValidationError ''Interview basic information validation failed''
            (FieldList [(''candidateId'', ''Candidate ID must be a valid ObjectId'')]))
   \<and> validateInterviewBasicInfo_errors dataBad
       = [(''candidateId'', ''Candidate ID must be a valid ObjectId'')]
   \<and> validateDateTimeConstraints w1 (in_date dataBad) (in_time dataBad)
       = Inl (ValidationError ''Date and time validation failed''
            (FieldList [(''time'', ''Interview time must be between 08:00 and 18:00'')]))"
  by code_simp

text \<open>
  C3, amended. \<^verbatim>\<open>validateInterviewData\<close> runs the validators in the order basic
  information, date and time, duration, interviewers, meeting details, notes, status, and
  raises the single error of the first of them that finds a violation; that error lists
  every violation this validator found and none of a later validator. Within basic
  information each of the five fields that breaks its rule is reported once, so N such
  fields give N entries with N distinct field names.
\<close>

theorem validation_reports_first_facet:
  "validateInterviewData w d =
    (if validateInterviewBasicInfo_errors d \<noteq> []
     then Inl (ValidationError ''Interview basic information validation failed''
                 (FieldList (validateInterviewBasicInfo_errors d)))
     else if dateErrors w (in_date d) @ timeErrors (in_time d)
              @ datetimeErrors w (in_date d) (in_time d) \<noteq> []
     then Inl (ValidationError ''Date and time validation failed''
                 (FieldList (dateErrors w (in_date d) @ timeErrors (in_time d)
                    @ datetimeErrors w (in_date d) (in_time d))))
     else if validateInterviewDuration_errors (in_duration d) \<noteq> []
     then Inl (ValidationError ''Duration validation failed''
                 (FieldList (validateInterviewDuration_errors (in_duration d))))
     else if validateInterviewers_errors (in_interviewers d) \<noteq> []
     then Inl (ValidationError ''Interviewers validation failed''
                 (FieldList (validateInterviewers_errors (in_interviewers d))))
     else if validateMeetingDetails_errors (in_meetingType d) (in_meetingLink d) (in_location d) \<noteq> []
     then Inl (ValidationError ''Meeting details validation failed''
                 (FieldList (validateMeetingDetails_errors (in_meetingType d) (in_meetingLink d)
                    (in_location d))))
     else if validateInterviewNotes_errors (in_notes d) \<noteq> []
     then Inl (ValidationError ''Notes validation failed''
                 (FieldList (validateInterviewNotes_errors (in_notes d))))
     else validateInterviewStatus (in_status d))
   \<and> map fst (validateInterviewBasicInfo_errors d) =
       (if \<not> (\<exists>s. in_candidateId d = Some s \<and> ObjectId_isValid s) then [''candidateId''] else [])
     @ (if \<not> (\<exists>s. in_candidateName d = Some s \<and> 1 \<le> length (trim s) \<and> length (trim s) \<le> 100)
        then [''candidateName''] else [])
     @ (if \<not> (\<exists>s. in_jobId d = Some s \<and> ObjectId_isValid s) then [''jobId''] else [])
     @ (if \<not> (\<exists>s. in_jobTitle d = Some s \<and> 1 \<le> length (trim s) \<and> length (trim s) \<le> 100)
        then [''jobTitle''] else [])
     @ (if \<not> (\<exists>s. in_type d = Some s \<and> s \<in> set INTERVIEW_TYPES) then [''type''] else [])
   \<and> distinct (map fst (validateInterviewBasicInfo_errors d))"
proof -
  show ?thesis
    using validateInterviewData_first_facet[of w d] basic_fields[of d] basic_fields_distinct[of d]
    by blast
qed

theorem validation_reports_first_facet_witness:
  "validateInterviewBasicInfo_errors dataBad3 =
     [(''candidateId'', ''Candidate ID must be a valid ObjectId''),
      (''type'', ''Interview type must be one of: screening, technical, cultural, final'')]
   \<and> validateInterviewData w1 dataBad3 =
       Inl (ValidationError ''Interview basic information validation failed''
              (FieldList [(''candidateId'', ''Candidate ID must be a valid ObjectId''),
                 (''type'', ''Interview type must be one of: screening, technical, cultural, final'')]))"
proof -
  have h: "validateInterviewBasicInfo_errors dataBad3 =
     [(''candidateId'', ''Candidate ID must be a valid ObjectId''),
      (''type'', ''Interview type must be one of: screening, technical, cultural, final'')]"
    by code_simp
  show ?thesis
    using validation_reports_first_facet[of w1 dataBad3] h by simp
qed

subsection \<open>Reading an interview of a deleted candidate\<close>

text \<open>
  C2: the read path does not deliver what the claim, and the integration test of the
  repository for a deleted candidate, expect. With the candidate lookup returning
  \<^verbatim>\<open>null\<close>, enrichment does set \<^verbatim>\<open>candidateDeleted = true\<close> and
  \<^verbatim>\<open>currentCandidateInfo = null\<close>, but \<^verbatim>\<open>getInterviewById\<close> returns the display
  projection, which has no such properties: the result is what it was before the
  deletion.
\<close>

theorem deleted_candidate_flag_dropped:
  "getCandidateById wCandidateMissing (Some ''507f1f77bcf86cd799439011'') = NotFound
   \<and> candidateDeleted (snd (enrichInterviewData wCandidateMissing (idA, docA))) = Some True
   \<and> currentCandidateInfo (snd (enrichInterviewData wCandidateMissing (idA, docA))) = Some None
   \<and> getInterviewById wCandidateMissing idA storeA = getInterviewById w1 idA storeA
   \<and> getInterviewById wCandidateMissing idA storeA =
       Inr (Some \<lparr> d_id = ''65a000000000000000000001'',
                   d_candidateId = Some ''507f1f77bcf86cd799439011'',
                   d_candidateName = Some ''Ada Lovelace'',
                   d_jobId = Some ''507f191e810c19729de860ea'',
                   d_jobTitle = Some ''Engineer'',
                   d_date = ''2026-12-01'',
                   d_time = ''10:00'',
                   d_duration = ''60 minutes'',
                   d_type = ''technical'',
                   d_interviewers = [''Grace Hopper''],
                   d_meetingDetails = \<lparr> md_type = ''video'',
                     md_link = Some ''https://meet.example.com/abc'', md_location = None \<rparr>,
                   d_notes = [],
                   d_status = ''scheduled'',
                   d_createdAt = 1793620800000,
                   d_updatedAt = 1793620800000 \<rparr>)"
  by code_simp

subsection \<open>The histogram of types\<close>

text \<open>
  C5: the histogram counts a type outside the enumeration. An update, which is not
  validated, sets the type of the stored interview to \<^verbatim>\<open>unknown_type\<close>; the
  statistics of its day then count it under that key, where the claim, and the property
  test of the repository on the keys of \<^verbatim>\<open>interviewsByType\<close>, want it left out.
\<close>

theorem stats_count_unrecognized_type:
  "\<not> isl (fst (updateInterview w1 idA patchUnknownType None storeA))
   \<and> ''unknown_type'' \<notin> set INTERVIEW_TYPES
   \<and> map_sum id interviewsByType
        (getInterviewStats w1 1796083200000 (snd (updateInterview w1 idA patchUnknownType None storeA)))
       = Inr [(''unknown_type'', 1)]
   \<and> map_sum id totalInterviews
        (getInterviewStats w1 1796083200000 (snd (updateInterview w1 idA patchUnknownType None storeA)))
       = Inr 1"
  by code_simp

subsection \<open>Display round trip\<close>


text \<open>The date does not come back on a host west of UTC, on a host more than eight hours
  east of UTC for an early slot, or when the host accepts a date that is not on the
  calendar.\<close>

lemma display_date_west_of_utc:
  "validateInterviewData wWest (sanitizeInterviewInput data0) = Inr ()
   \<and> in_date (sanitizeInterviewInput data0) = Some ''2026-12-01''
   \<and> map_sum id (map_option d_date) (fst (createInterview wWest idA data0 None []))
       = Inr (Some ''2026-11-30'')"
  by code_simp

lemma display_date_far_east_of_utc:
  "validateInterviewData wEast (sanitizeInterviewInput (data0 \<lparr> in_time := Some ''08:30'' \<rparr>)) = Inr ()
   \<and> map_sum id (map_option d_date)
        (fst (createInterview wEast idA (data0 \<lparr> in_time := Some ''08:30'' \<rparr>) None []))
       = Inr (Some ''2026-11-30'')"
  by code_simp

lemma display_date_lenient_host:
  "validateInterviewData wLenient (sanitizeInterviewInput (data0 \<lparr> in_date := Some ''2027-02-30'' \<rparr>))
       = Inr ()
   \<and> map_sum id (map_option d_date)
        (fst (createInterview wLenient idA (data0 \<lparr> in_date := Some ''2027-02-30'' \<rparr>) None []))
       = Inr (Some ''2027-03-02'')"
  by code_simp



end
